theory Spec2Isabelle
  imports Main
begin

section \<open>The rate limiter of Genez-io/RateLimiter\<close>

text \<open>
  The repository holds two variants of the decorator \<^verbatim>\<open>GenezioRateLimiter\<close>:
  \<^item> \<^verbatim>\<open>src/src/index.ts\<close>: the key is \<^verbatim>\<open>sourceIp:minute\<close>, the expiry is the constant 59,
    a request without a GnzContext is served with a warning, and every error of the
    \<^verbatim>\<open>try\<close> block other than the rate-limit rejection is logged and swallowed.
    Its definitions carry the suffix \<open>_index\<close>.
  \<^item> \<^verbatim>\<open>src/unnamed/part_000\<close>: the key is \<^verbatim>\<open>sourceIp:name:minute\<close>, the expiry is
    \<^verbatim>\<open>refreshRate\<close> (default 59), a request without a GnzContext is refused, every error
    of the \<^verbatim>\<open>try\<close> block is thrown again, and the connection has a retry counter.
    Its definitions carry the suffix \<open>_part000\<close>.

  The wrapped function is asynchronous in the source. \<open>wrapped_part000\<close> and
  \<open>wrapped_index\<close> are one call taken alone: it reads the clock once
  (\<^verbatim>\<open>new Date()\<close>), and its store commands run at that instant with nothing in
  between. Calls in flight together are modelled further down, by the two stages of a call
  and a sequence of events.
\<close>

subsection \<open>Values, errors, options\<close>

text \<open>The two error codes of \<^verbatim>\<open>@genezio/types\<close> the source uses.\<close>

datatype GenezioErrorCodes = BadRequest | RequestTimeout

text \<open>
  What the wrapped function can throw: a \<^verbatim>\<open>GenezioError(message, code)\<close>, the
  \<^verbatim>\<open>TypeError\<close> of a property read on \<^verbatim>\<open>undefined\<close> or \<^verbatim>\<open>null\<close>, and an error
  of the Redis client (connection lost, timeout).
\<close>

datatype error = GenezioError string GenezioErrorCodes | TypeError | RedisError

text \<open>\<^verbatim>\<open>(error as GenezioError).code\<close>: only a \<^verbatim>\<open>GenezioError\<close> carries one of the codes.\<close>

fun error_code :: "error \<Rightarrow> GenezioErrorCodes option" where
  "error_code (GenezioError m c) = Some c"
| "error_code TypeError = None"
| "error_code RedisError = None"

text \<open>
  One element of \<^verbatim>\<open>args: any[]\<close>. \<open>Object b ip\<close> is an object whose \<^verbatim>\<open>isGnzContext\<close>
  is truthy exactly when \<open>b\<close>, and whose \<^verbatim>\<open>requestContext.http.sourceIp\<close> reads \<open>ip\<close>
  (\<open>None\<close> when \<^verbatim>\<open>requestContext\<close> or \<^verbatim>\<open>http\<close> is missing, so that the read throws).
  \<open>Primitive\<close> is a number, string or boolean: every property of it is \<^verbatim>\<open>undefined\<close>.
\<close>

datatype arg = Undefined | Null | Primitive string | Object bool "string option"

text \<open>\<^verbatim>\<open>args.length === 0 || !args[0].isGnzContext\<close>\<close>

fun lacks_marker :: "arg list \<Rightarrow> error + bool" where
  "lacks_marker [] = Inr True"
| "lacks_marker (Undefined # rest) = Inl TypeError"
| "lacks_marker (Null # rest) = Inl TypeError"
| "lacks_marker (Primitive p # rest) = Inr True"
| "lacks_marker (Object b ip # rest) = Inr (\<not> b)"

text \<open>\<^verbatim>\<open>args[0].requestContext.http.sourceIp\<close>\<close>

fun sourceIp :: "arg list \<Rightarrow> error + string" where
  "sourceIp (Object b (Some ip) # rest) = Inr ip"
| "sourceIp other = Inl TypeError"

text \<open>
  \<^verbatim>\<open>GenezioRateLimiterOptionsParameters\<close>; every field is optional. The variant of
  \<^verbatim>\<open>index.ts\<close> has no \<^verbatim>\<open>refreshRate\<close> and never reads it. The two numbers are
  integers, as a number of requests and a number of seconds are.
\<close>

record GenezioRateLimiterOptionsParameters =
  dbUrl :: "string option"
  limit :: "int option"
  refreshRate :: "int option"

text \<open>\<^verbatim>\<open>_dict.limit ? _dict.limit : 50\<close>: 0 is falsy.\<close>

definition limit_or_default :: "GenezioRateLimiterOptionsParameters \<Rightarrow> int" where
  "limit_or_default d = (case limit d of None \<Rightarrow> 50 | Some l \<Rightarrow> if l \<noteq> 0 then l else 50)"

text \<open>
  \<^verbatim>\<open>oldCount && parseInt(oldCount) >= (_dict.limit ? _dict.limit : 50)\<close>: the reply
  of \<^verbatim>\<open>GET\<close> is \<^verbatim>\<open>null\<close> for an absent key, and the decimal string of the counter
  otherwise, which is never the empty string and so is truthy.
\<close>

definition limit_reached :: "int option \<Rightarrow> int \<Rightarrow> bool" where
  "limit_reached oldCount l = (case oldCount of None \<Rightarrow> False | Some c \<Rightarrow> c \<ge> l)"

text \<open>\<^verbatim>\<open>_dict.refreshRate ? _dict.refreshRate : 59\<close>\<close>

definition refreshRate_or_default :: "GenezioRateLimiterOptionsParameters \<Rightarrow> int" where
  "refreshRate_or_default d =
     (case refreshRate d of None \<Rightarrow> 59 | Some r \<Rightarrow> if r \<noteq> 0 then r else 59)"

text \<open>\<^verbatim>\<open>_dict.refreshRate && _dict.refreshRate < 1\<close>\<close>

definition refreshRate_too_small :: "GenezioRateLimiterOptionsParameters \<Rightarrow> bool" where
  "refreshRate_too_small d = (case refreshRate d of None \<Rightarrow> False | Some r \<Rightarrow> r \<noteq> 0 \<and> r < 1)"

definition rate_limit_exceeded :: error where
  "rate_limit_exceeded = GenezioError ''Rate limit exceeded'' RequestTimeout"

definition refresh_rate_error :: error where
  "refresh_rate_error = GenezioError ''The refresh rate must be at least 1 second'' BadRequest"

definition not_a_context_error :: error where
  "not_a_context_error =
     GenezioError ''Error: the GenezioRateLimiter decorator must be used with the first parameter being a GnzContext object'' BadRequest"

subsection \<open>The clock and the window key\<close>

text \<open>
  A \<^verbatim>\<open>Date\<close> is the local wall-clock time in milliseconds. \<^verbatim>\<open>getMinutes()\<close>
  is the minute of the hour, 0 to 59; \<open>calendar_minute\<close> numbers the minutes of the
  calendar and is what the specification calls the window.
\<close>

definition getMinutes :: "nat \<Rightarrow> nat" where
  "getMinutes date = (date div 60000) mod 60"

definition calendar_minute :: "nat \<Rightarrow> nat" where
  "calendar_minute date = date div 60000"

text \<open>A number in a template literal: its decimal digits.\<close>

definition digit :: "nat \<Rightarrow> char" where
  "digit d = ''0123456789'' ! d"

fun string_of_nat :: "nat \<Rightarrow> string" where
  "string_of_nat n = (if n < 10 then [digit n] else string_of_nat (n div 10) @ [digit (n mod 10)])"

declare string_of_nat.simps [simp del]

text \<open>\<^verbatim>\<open>`${args[0].requestContext.http.sourceIp}:${_context.name}:${date.getMinutes()}`\<close>\<close>

definition window_key_part000 :: "string \<Rightarrow> string \<Rightarrow> nat \<Rightarrow> string" where
  "window_key_part000 ip name date = ip @ '':'' @ name @ '':'' @ string_of_nat (getMinutes date)"

text \<open>\<^verbatim>\<open>`${args[0].requestContext.http.sourceIp}:${date.getMinutes()}`\<close>\<close>

definition window_key_index :: "string \<Rightarrow> nat \<Rightarrow> string" where
  "window_key_index ip date = ip @ '':'' @ string_of_nat (getMinutes date)"

subsection \<open>The store\<close>

text \<open>
  The Redis commands the source sends. A key holds an integer and the instant
  (milliseconds) at which it expires; a read after that instant finds no key.
  \<^verbatim>\<open>INCR\<close> counts from 0 when the key is absent, \<^verbatim>\<open>EXPIRE key seconds\<close> sets the
  expiry anew and deletes the key when \<open>seconds\<close> is not positive.
\<close>

type_synonym redis = "string \<Rightarrow> (int \<times> nat) option"

definition redis_get :: "redis \<Rightarrow> string \<Rightarrow> nat \<Rightarrow> int option" where
  "redis_get db k t = (case db k of None \<Rightarrow> None | Some (v, e) \<Rightarrow> if t \<le> e then Some v else None)"

text \<open>The number \<^verbatim>\<open>INCR\<close> adds one to: 0 when the key is absent or has expired.\<close>

definition counter :: "redis \<Rightarrow> string \<Rightarrow> nat \<Rightarrow> int" where
  "counter db k t = (case redis_get db k t of None \<Rightarrow> 0 | Some v \<Rightarrow> v)"

text \<open>\<^verbatim>\<open>multi().incr(k).expire(k, seconds).exec()\<close>\<close>

definition redis_incr_expire :: "redis \<Rightarrow> string \<Rightarrow> int \<Rightarrow> nat \<Rightarrow> redis" where
  "redis_incr_expire db k seconds t =
     (if seconds \<le> 0 then db(k := None)
      else db(k \<mapsto> (counter db k t + 1, t + 1000 * nat seconds)))"

text \<open>The commands a request sent, in order, whether or not they succeeded.\<close>

datatype store_op = GET string | MULTI_INCR_EXPIRE string int

text \<open>What the connection does to the commands of one request.\<close>

datatype fault = Healthy | GetFails | ExecFails

record env =
  date :: nat
  redis :: redis
  failure :: fault

subsection \<open>The wrapped function\<close>

datatype log_entry = Log string | LogError error | LogConcat string error

text \<open>
  The closure of the decorator: its options and \<^verbatim>\<open>redisClient\<close>, which is
  \<open>None\<close> when \<^verbatim>\<open>new Redis\<close> threw and the variable was never assigned.
\<close>

record limiter =
  dict :: GenezioRateLimiterOptionsParameters
  redisClient :: "string option"

text \<open>
  What one call of the wrapped function did: what it returned or threw, the store after it,
  the commands it sent, the argument lists the handler was called with, the console.
  The handler's whole outcome (its return value or its exception) is a value of \<open>'h\<close>.
\<close>

record 'h outcome =
  result :: "error + 'h"
  redis_after :: redis
  store_ops :: "store_op list"
  calls :: "arg list list"
  console :: "log_entry list"

definition throw :: "error \<Rightarrow> redis \<Rightarrow> store_op list \<Rightarrow> log_entry list \<Rightarrow> 'h outcome" where
  "throw e db ops logs =
     \<lparr>result = Inl e, redis_after = db, store_ops = ops, calls = [], console = logs\<rparr>"

text \<open>\<^verbatim>\<open>const func = value.bind(this); const result = func(...args); return result;\<close>\<close>

definition invoke ::
  "(arg list \<Rightarrow> 'h) \<Rightarrow> arg list \<Rightarrow> redis \<Rightarrow> store_op list \<Rightarrow> log_entry list \<Rightarrow> 'h outcome" where
  "invoke handler args db ops logs =
     \<lparr>result = Inr (handler args), redis_after = db, store_ops = ops, calls = [args],
      console = logs\<rparr>"

text \<open>
  The \<^verbatim>\<open>try\<close> block of \<^verbatim>\<open>part_000\<close> (lines 69 to 99): the error it threw if any, the
  store after it and the commands sent.
\<close>

definition try_part000 ::
  "limiter \<Rightarrow> string \<Rightarrow> env \<Rightarrow> arg list \<Rightarrow> error option \<times> redis \<times> store_op list" where
  "try_part000 L name w args =
     (case redisClient L of
        None \<Rightarrow> (Some TypeError, redis w, [])
      | Some client \<Rightarrow>
          (case sourceIp args of
             Inl e \<Rightarrow> (Some e, redis w, [])
           | Inr ip \<Rightarrow>
               (let k = window_key_part000 ip name (date w);
                    seconds = refreshRate_or_default (dict L)
                in
                if failure w = GetFails then (Some RedisError, redis w, [GET k])
                else if limit_reached (redis_get (redis w) k (date w)) (limit_or_default (dict L))
                then (Some rate_limit_exceeded, redis w, [GET k])
                else if refreshRate_too_small (dict L)
                then (Some refresh_rate_error, redis w, [GET k])
                else if failure w = ExecFails
                then (Some RedisError, redis w, [GET k, MULTI_INCR_EXPIRE k seconds])
                else (None, redis_incr_expire (redis w) k seconds (date w),
                      [GET k, MULTI_INCR_EXPIRE k seconds]))))"

definition operating_error_log :: string where
  "operating_error_log = ''Error when operating on the redis client. Remember to set the Redis dbUrl parameter in the GenezioRateLimiter decorator.''"

text \<open>
  The wrapped function of \<^verbatim>\<open>part_000\<close> (lines 56 to 114); \<open>name\<close> is
  \<^verbatim>\<open>_context.name\<close>, the name of the decorated handler.
\<close>

definition wrapped_part000 ::
  "limiter \<Rightarrow> string \<Rightarrow> (arg list \<Rightarrow> 'h) \<Rightarrow> env \<Rightarrow> arg list \<Rightarrow> 'h outcome" where
  "wrapped_part000 L name handler w args =
     (case lacks_marker args of
        Inl e \<Rightarrow> throw e (redis w) [] []
      | Inr True \<Rightarrow>
          throw not_a_context_error (redis w) []
            [Log ''Error: the GenezioRateLimiter decorator must be used with the first parameter being a GnzContext object'']
      | Inr False \<Rightarrow>
          (case try_part000 L name w args of
             (Some e, db, ops) \<Rightarrow>
               throw e db ops
                 (if error_code e \<noteq> Some RequestTimeout then [Log operating_error_log] else [])
           | (None, db, ops) \<Rightarrow> invoke handler args db ops []))"

text \<open>The \<^verbatim>\<open>try\<close> block of \<^verbatim>\<open>index.ts\<close> (lines 41 to 58).\<close>

definition try_index ::
  "limiter \<Rightarrow> env \<Rightarrow> arg list \<Rightarrow> error option \<times> redis \<times> store_op list" where
  "try_index L w args =
     (case redisClient L of
        None \<Rightarrow> (Some TypeError, redis w, [])
      | Some client \<Rightarrow>
          (case sourceIp args of
             Inl e \<Rightarrow> (Some e, redis w, [])
           | Inr ip \<Rightarrow>
               (let k = window_key_index ip (date w) in
                if failure w = GetFails then (Some RedisError, redis w, [GET k])
                else if limit_reached (redis_get (redis w) k (date w)) (limit_or_default (dict L))
                then (Some rate_limit_exceeded, redis w, [GET k])
                else if failure w = ExecFails
                then (Some RedisError, redis w, [GET k, MULTI_INCR_EXPIRE k 59])
                else (None, redis_incr_expire (redis w) k 59 (date w),
                      [GET k, MULTI_INCR_EXPIRE k 59]))))"

definition opperating_error_log :: string where
  "opperating_error_log = ''Error when opperating on the redis client. Remember to set the Redis dbUrl parameter in the GenezioRateLimiter decorator.''"

text \<open>
  The wrapped function of \<^verbatim>\<open>index.ts\<close> (lines 33 to 75). The decorator receives
  \<^verbatim>\<open>_context\<close>, whose name is \<open>name\<close>, and never reads it.
\<close>

definition wrapped_index ::
  "limiter \<Rightarrow> string \<Rightarrow> (arg list \<Rightarrow> 'h) \<Rightarrow> env \<Rightarrow> arg list \<Rightarrow> 'h outcome" where
  "wrapped_index L name handler w args =
     (case lacks_marker args of
        Inl e \<Rightarrow> throw e (redis w) [] []
      | Inr True \<Rightarrow>
          invoke handler args (redis w) []
            [Log ''Warning: the GenezioRateLimiter decorator must be used with the first parameter being a GnzContext object'']
      | Inr False \<Rightarrow>
          (case try_index L w args of
             (Some e, db, ops) \<Rightarrow>
               if error_code e = Some RequestTimeout then throw e db ops []
               else invoke handler args db ops [Log opperating_error_log, LogError e]
           | (None, db, ops) \<Rightarrow> invoke handler args db ops []))"

subsection \<open>Calls in flight together\<close>

text \<open>
  The wrapped function awaits the store twice: the reply of \<^verbatim>\<open>GET\<close>, and the reply of
  \<^verbatim>\<open>multi()...exec()\<close>. Other calls run while it waits. A call is therefore two stages:
  up to the reply of \<^verbatim>\<open>GET\<close> and the tests that follow it, the call either is over or
  has sent its \<^verbatim>\<open>MULTI\<close> for a key and a number of seconds; the second stage starts at
  the reply of the \<^verbatim>\<open>MULTI\<close>. The key is built once, from the clock read in the first
  stage. Each stage is taken at the instant at which the store executes its command; the
  first stage reads the clock at that instant.
\<close>

datatype 'h stage = Finished "'h outcome" | Awaiting string int

text \<open>First stage of \<^verbatim>\<open>part_000\<close>: lines 57 to 85 (with the \<^verbatim>\<open>catch\<close> of lines 100 to 108).\<close>

definition begin_part000 ::
  "limiter \<Rightarrow> string \<Rightarrow> (arg list \<Rightarrow> 'h) \<Rightarrow> env \<Rightarrow> arg list \<Rightarrow> 'h stage" where
  "begin_part000 L name handler w args =
     (case lacks_marker args of
        Inl e \<Rightarrow> Finished (throw e (redis w) [] [])
      | Inr True \<Rightarrow>
          Finished (throw not_a_context_error (redis w) []
            [Log ''Error: the GenezioRateLimiter decorator must be used with the first parameter being a GnzContext object''])
      | Inr False \<Rightarrow>
          (case redisClient L of
             None \<Rightarrow> Finished (throw TypeError (redis w) [] [Log operating_error_log])
           | Some client \<Rightarrow>
               (case sourceIp args of
                  Inl e \<Rightarrow> Finished (throw e (redis w) [] [Log operating_error_log])
                | Inr ip \<Rightarrow>
                    (let k = window_key_part000 ip name (date w) in
                     if failure w = GetFails
                     then Finished (throw RedisError (redis w) [GET k] [Log operating_error_log])
                     else if limit_reached (redis_get (redis w) k (date w))
                               (limit_or_default (dict L))
                     then Finished (throw rate_limit_exceeded (redis w) [GET k] [])
                     else if refreshRate_too_small (dict L)
                     then Finished (throw refresh_rate_error (redis w) [GET k]
                                      [Log operating_error_log])
                     else Awaiting k (refreshRate_or_default (dict L))))))"

text \<open>
  Second stage of \<^verbatim>\<open>part_000\<close>: the reply of the \<^verbatim>\<open>MULTI\<close> (lines 86 to 99), then
  lines 100 to 113, in the store as it is by then.
\<close>

definition complete_part000 ::
  "(arg list \<Rightarrow> 'h) \<Rightarrow> arg list \<Rightarrow> string \<Rightarrow> int \<Rightarrow> env \<Rightarrow> 'h outcome" where
  "complete_part000 handler args k seconds w =
     (if failure w = ExecFails
      then throw RedisError (redis w) [GET k, MULTI_INCR_EXPIRE k seconds]
             [Log operating_error_log]
      else invoke handler args (redis_incr_expire (redis w) k seconds (date w))
             [GET k, MULTI_INCR_EXPIRE k seconds] [])"

text \<open>
  First stage of \<^verbatim>\<open>index.ts\<close>: lines 34 to 53, with the \<^verbatim>\<open>catch\<close> of lines 59 to 68
  and, where the call goes on without the store, the call of the handler (lines 71 to 74).
\<close>

definition begin_index ::
  "limiter \<Rightarrow> string \<Rightarrow> (arg list \<Rightarrow> 'h) \<Rightarrow> env \<Rightarrow> arg list \<Rightarrow> 'h stage" where
  "begin_index L name handler w args =
     (case lacks_marker args of
        Inl e \<Rightarrow> Finished (throw e (redis w) [] [])
      | Inr True \<Rightarrow>
          Finished (invoke handler args (redis w) []
            [Log ''Warning: the GenezioRateLimiter decorator must be used with the first parameter being a GnzContext object''])
      | Inr False \<Rightarrow>
          (case redisClient L of
             None \<Rightarrow>
               Finished (invoke handler args (redis w) []
                           [Log opperating_error_log, LogError TypeError])
           | Some client \<Rightarrow>
               (case sourceIp args of
                  Inl e \<Rightarrow>
                    Finished (invoke handler args (redis w) []
                                [Log opperating_error_log, LogError e])
                | Inr ip \<Rightarrow>
                    (let k = window_key_index ip (date w) in
                     if failure w = GetFails
                     then Finished (invoke handler args (redis w) [GET k]
                                      [Log opperating_error_log, LogError RedisError])
                     else if limit_reached (redis_get (redis w) k (date w))
                               (limit_or_default (dict L))
                     then Finished (throw rate_limit_exceeded (redis w) [GET k] [])
                     else Awaiting k 59))))"

text \<open>Second stage of \<^verbatim>\<open>index.ts\<close>: the reply of the \<^verbatim>\<open>MULTI\<close> (lines 54 to 58), then lines 59 to 74.\<close>

definition complete_index ::
  "(arg list \<Rightarrow> 'h) \<Rightarrow> arg list \<Rightarrow> string \<Rightarrow> int \<Rightarrow> env \<Rightarrow> 'h outcome" where
  "complete_index handler args k seconds w =
     (if failure w = ExecFails
      then invoke handler args (redis w) [GET k, MULTI_INCR_EXPIRE k seconds]
             [Log opperating_error_log, LogError RedisError]
      else invoke handler args (redis_incr_expire (redis w) k seconds (date w))
             [GET k, MULTI_INCR_EXPIRE k seconds] [])"

text \<open>
  What happens at the store and in the process, one event after the other: a call
  numbered \<open>i\<close> is made through a decorated handler and runs its first stage at an
  instant, or the \<^verbatim>\<open>MULTI\<close> of the call numbered \<open>i\<close> is executed at an instant and the
  call runs its second stage. Each event says whether the connection fails it.
\<close>

datatype step = Call nat limiter string "arg list" nat fault | Exec nat nat fault

text \<open>
  The store, the calls waiting for their \<^verbatim>\<open>MULTI\<close> (handler name, arguments, key,
  seconds), and the calls that are over, in the order in which they ended, each with what
  it returned or threw and the argument lists its handler was called with.
\<close>

record 'h flights =
  store :: redis
  waiting :: "nat \<Rightarrow> (string \<times> arg list \<times> string \<times> int) option"
  finished :: "(nat \<times> (error + 'h) \<times> arg list list) list"

text \<open>\<open>handlers\<close> gives the handler decorated under each name.\<close>

fun step_part000 :: "(string \<Rightarrow> arg list \<Rightarrow> 'h) \<Rightarrow> 'h flights \<Rightarrow> step \<Rightarrow> 'h flights" where
  "step_part000 handlers st (Call i L name args t f) =
     (case begin_part000 L name (handlers name) \<lparr>date = t, redis = store st, failure = f\<rparr> args of
        Finished out \<Rightarrow> st\<lparr>finished := finished st @ [(i, result out, calls out)]\<rparr>
      | Awaiting k seconds \<Rightarrow> st\<lparr>waiting := (waiting st)(i \<mapsto> (name, args, k, seconds))\<rparr>)"
| "step_part000 handlers st (Exec i t f) =
     (case waiting st i of
        None \<Rightarrow> st
      | Some (name, args, k, seconds) \<Rightarrow>
          (let out = complete_part000 (handlers name) args k seconds
                       \<lparr>date = t, redis = store st, failure = f\<rparr>
           in \<lparr>store = redis_after out, waiting = (waiting st)(i := None),
               finished = finished st @ [(i, result out, calls out)]\<rparr>))"

definition run_part000 ::
  "(string \<Rightarrow> arg list \<Rightarrow> 'h) \<Rightarrow> 'h flights \<Rightarrow> step list \<Rightarrow> 'h flights" where
  "run_part000 handlers st steps = foldl (step_part000 handlers) st steps"

fun step_index :: "(string \<Rightarrow> arg list \<Rightarrow> 'h) \<Rightarrow> 'h flights \<Rightarrow> step \<Rightarrow> 'h flights" where
  "step_index handlers st (Call i L name args t f) =
     (case begin_index L name (handlers name) \<lparr>date = t, redis = store st, failure = f\<rparr> args of
        Finished out \<Rightarrow> st\<lparr>finished := finished st @ [(i, result out, calls out)]\<rparr>
      | Awaiting k seconds \<Rightarrow> st\<lparr>waiting := (waiting st)(i \<mapsto> (name, args, k, seconds))\<rparr>)"
| "step_index handlers st (Exec i t f) =
     (case waiting st i of
        None \<Rightarrow> st
      | Some (name, args, k, seconds) \<Rightarrow>
          (let out = complete_index (handlers name) args k seconds
                       \<lparr>date = t, redis = store st, failure = f\<rparr>
           in \<lparr>store = redis_after out, waiting = (waiting st)(i := None),
               finished = finished st @ [(i, result out, calls out)]\<rparr>))"

definition run_index ::
  "(string \<Rightarrow> arg list \<Rightarrow> 'h) \<Rightarrow> 'h flights \<Rightarrow> step list \<Rightarrow> 'h flights" where
  "run_index handlers st steps = foldl (step_index handlers) st steps"

definition idle :: "redis \<Rightarrow> 'h flights" where
  "idle db = \<lparr>store = db, waiting = Map.empty, finished = []\<rparr>"

text \<open>What the calls numbered from \<open>i0\<close> on returned or threw, in the order in which they ended.\<close>

definition answers :: "nat \<Rightarrow> 'h flights \<Rightarrow> ((error + 'h) \<times> arg list list) list" where
  "answers i0 st = map snd (filter (\<lambda>r. i0 \<le> fst r) (finished st))"

text \<open>
  One caller's calls to one handler, numbered from \<open>i\<close> on and made one at a time: each
  turn is the events of other calls before this call is made, the instant it is made, the
  events of other calls while it waits, and the instant its \<^verbatim>\<open>MULTI\<close> is executed.
\<close>

type_synonym turn = "step list \<times> nat \<times> step list \<times> nat"

fun one_at_a_time :: "limiter \<Rightarrow> string \<Rightarrow> arg list \<Rightarrow> nat \<Rightarrow> turn list \<Rightarrow> step list" where
  "one_at_a_time L name args i [] = []"
| "one_at_a_time L name args i ((before, tc, between, te) # rest) =
     before @ [Call i L name args tc Healthy] @ between @ [Exec i te Healthy]
     @ one_at_a_time L name args (Suc i) rest"

fun called_at :: "turn \<Rightarrow> nat" where
  "called_at (before, tc, between, te) = tc"

text \<open>
  The turns follow the instant \<open>t\<close> in order, and each \<^verbatim>\<open>MULTI\<close> is executed at most
  \<open>w\<close> milliseconds after the one before it (\<open>t\<close> for the first).
\<close>

fun paced :: "nat \<Rightarrow> nat \<Rightarrow> turn list \<Rightarrow> bool" where
  "paced w t [] = True"
| "paced w t ((before, tc, between, te) # rest) = (t \<le> tc \<and> tc \<le> te \<and> te \<le> t + w \<and> paced w te rest)"

text \<open>
  An event of another call: its number is below \<open>i0\<close>, and the key it builds, if it
  gets that far, is not \<open>k\<close>.
\<close>

fun aside_part000 :: "string \<Rightarrow> nat \<Rightarrow> step \<Rightarrow> bool" where
  "aside_part000 k i0 (Call j L name args t f) =
     (j < i0 \<and> (case sourceIp args of Inl e \<Rightarrow> True | Inr ip \<Rightarrow> window_key_part000 ip name t \<noteq> k))"
| "aside_part000 k i0 (Exec j t f) = (j < i0)"

fun aside_index :: "string \<Rightarrow> nat \<Rightarrow> step \<Rightarrow> bool" where
  "aside_index k i0 (Call j L name args t f) =
     (j < i0 \<and> (case sourceIp args of Inl e \<Rightarrow> True | Inr ip \<Rightarrow> window_key_index ip t \<noteq> k))"
| "aside_index k i0 (Exec j t f) = (j < i0)"

fun asides :: "(step \<Rightarrow> bool) \<Rightarrow> turn list \<Rightarrow> bool" where
  "asides P [] = True"
| "asides P ((before, tc, between, te) # rest) = (list_all P before \<and> list_all P between \<and> asides P rest)"

text \<open>No call numbered below \<open>i0\<close> is waiting to write the key \<open>k\<close>.\<close>

definition others_elsewhere :: "string \<Rightarrow> nat \<Rightarrow> 'h flights \<Rightarrow> bool" where
  "others_elsewhere k i0 st \<longleftrightarrow>
     (\<forall>j n a k' s. j < i0 \<longrightarrow> waiting st j = Some (n, a, k', s) \<longrightarrow> k' \<noteq> k)"

text \<open>A table of handlers for the examples: each returns the number of its arguments.\<close>

definition arity :: "string \<Rightarrow> arg list \<Rightarrow> nat" where
  "arity name args = length args"


subsection \<open>Constructing the limiter\<close>

text \<open>\<^verbatim>\<open>_dict.dbUrl ? _dict.dbUrl : fallback\<close>: the empty string is falsy.\<close>

definition dbUrl_or :: "GenezioRateLimiterOptionsParameters \<Rightarrow> string \<Rightarrow> string" where
  "dbUrl_or d fallback = (case dbUrl d of None \<Rightarrow> fallback | Some u \<Rightarrow> if u \<noteq> [] then u else fallback)"

text \<open>
  \<^verbatim>\<open>GenezioRateLimiter(_dict)\<close> of \<^verbatim>\<open>part_000\<close> (lines 23 to 56). \<open>new_Redis\<close> is the
  constructor of the client library: the client, or the error it threw. The result is the
  closure or the error thrown, with the console.
\<close>

definition GenezioRateLimiter_part000 ::
  "(string \<Rightarrow> error + string) \<Rightarrow> GenezioRateLimiterOptionsParameters
     \<Rightarrow> (error + limiter) \<times> log_entry list" where
  "GenezioRateLimiter_part000 new_Redis d =
     (case new_Redis (dbUrl_or d ''redis://localhost:6379'') of
        Inl e \<Rightarrow> (Inl e, [Log operating_error_log])
      | Inr client \<Rightarrow> (Inr \<lparr>dict = d, redisClient = Some client\<rparr>, []))"

text \<open>A constructor of the client library that throws whatever the address.\<close>

definition failing_Redis :: "string \<Rightarrow> error + string" where
  "failing_Redis url = Inl RedisError"

text \<open>\<^verbatim>\<open>GenezioRateLimiter(_dict)\<close> of \<^verbatim>\<open>index.ts\<close> (lines 18 to 33).\<close>

definition GenezioRateLimiter_index ::
  "(string \<Rightarrow> error + string) \<Rightarrow> GenezioRateLimiterOptionsParameters
     \<Rightarrow> (error + limiter) \<times> log_entry list" where
  "GenezioRateLimiter_index new_Redis d =
     (case new_Redis (dbUrl_or d []) of
        Inl e \<Rightarrow>
          (Inr \<lparr>dict = d, redisClient = None\<rparr>,
           [Log ''Error when opperating on the redis client. Remember to set the Redis dbUrl parameter in the RateLimiter decorator.'',
            LogError e])
      | Inr client \<Rightarrow> (Inr \<lparr>dict = d, redisClient = Some client\<rparr>, []))"

subsection \<open>The connection of \<^verbatim>\<open>part_000\<close>\<close>

text \<open>
  The state the listeners of lines 27 to 49 share: \<^verbatim>\<open>retryCount\<close>, and whether
  \<^verbatim>\<open>redisClient.disconnect()\<close> was called.
\<close>

record connector =
  retryCount :: nat
  disconnected :: bool

definition connecting :: connector where
  "connecting = \<lparr>retryCount = 0, disconnected = False\<rparr>"

text \<open>\<^verbatim>\<open>retryStrategy\<close>: the delay before the next attempt, \<open>None\<close> for \<^verbatim>\<open>undefined\<close>.\<close>

definition retryStrategy :: "connector \<Rightarrow> nat option" where
  "retryStrategy c = (if retryCount c > 5 then None else Some 1000)"

datatype event = ErrorEvent error | ReconnectingEvent

text \<open>
  The listener of \<^verbatim>\<open>"error"\<close>: the state after it, what it logged, and the error it
  threw if any.
\<close>

definition on_error :: "connector \<Rightarrow> error \<Rightarrow> connector \<times> log_entry list \<times> error option" where
  "on_error c e =
     (let n = retryCount c + 1 in
      if n > 5
      then (c\<lparr>retryCount := n, disconnected := True\<rparr>,
            [LogConcat ''Could not connect to the Redis database. '' e,
             Log ''Could not connect to the Redis database after 5 retries. Stopping polling.''],
            Some e)
      else (c\<lparr>retryCount := n\<rparr>,
            [LogConcat ''Could not connect to the Redis database. '' e], None))"

definition on_event :: "connector \<Rightarrow> event \<Rightarrow> connector \<times> log_entry list \<times> error option" where
  "on_event c ev =
     (case ev of
        ErrorEvent e \<Rightarrow> on_error c e
      | ReconnectingEvent \<Rightarrow> (c, [Log ''Trying to reconnect to the Redis database...''], None))"

fun connector_after :: "connector \<Rightarrow> event list \<Rightarrow> connector" where
  "connector_after c [] = c"
| "connector_after c (ev # evs) = connector_after (fst (on_event c ev)) evs"

fun errors_in :: "event list \<Rightarrow> nat" where
  "errors_in [] = 0"
| "errors_in (ErrorEvent e # evs) = Suc (errors_in evs)"
| "errors_in (ReconnectingEvent # evs) = errors_in evs"

section \<open>Properties\<close>

subsection \<open>Auxiliary facts\<close>

lemmas wrapped_defs = wrapped_part000_def wrapped_index_def try_part000_def try_index_def
  throw_def invoke_def

lemma error_code_rate_limit: "error_code rate_limit_exceeded = Some RequestTimeout"
  by (simp add: rate_limit_exceeded_def)

lemma error_code_refresh: "error_code refresh_rate_error = Some BadRequest"
  by (simp add: refresh_rate_error_def)

lemma rate_limit_distinct [simp]:
  "rate_limit_exceeded \<noteq> TypeError" "rate_limit_exceeded \<noteq> RedisError"
  "rate_limit_exceeded \<noteq> refresh_rate_error" "rate_limit_exceeded \<noteq> not_a_context_error"
  "TypeError \<noteq> rate_limit_exceeded" "RedisError \<noteq> rate_limit_exceeded"
  "refresh_rate_error \<noteq> rate_limit_exceeded" "not_a_context_error \<noteq> rate_limit_exceeded"
  by (simp_all add: rate_limit_exceeded_def refresh_rate_error_def not_a_context_error_def)

lemma lacks_marker_Inl: "lacks_marker args = Inl e \<Longrightarrow> e = TypeError"
  by (induction args rule: lacks_marker.induct) auto

lemma sourceIp_Inl: "sourceIp args = Inl e \<Longrightarrow> e = TypeError"
  by (induction args rule: sourceIp.induct) auto

text \<open>The decimal digits of a number determine it, and none of them is a colon.\<close>

lemma digit_inj: "a < 10 \<Longrightarrow> b < 10 \<Longrightarrow> digit a = digit b \<Longrightarrow> a = b"
proof -
  assume a: "a < 10" and b: "b < 10" and e: "digit a = digit b"
  have A: "a \<in> {0,1,2,3,4,5,6,7,8,9}" using a by auto
  have B: "b \<in> {0,1,2,3,4,5,6,7,8,9}" using b by auto
  show ?thesis using A B e by (auto simp: digit_def)
qed

lemma digit_not_colon: "d < 10 \<Longrightarrow> digit d \<noteq> CHR '':''"
proof -
  assume a: "d < 10"
  have A: "d \<in> {0,1,2,3,4,5,6,7,8,9}" using a by auto
  show ?thesis using A by (auto simp: digit_def)
qed

lemma string_of_nat_nonempty: "string_of_nat n \<noteq> []"
  by (subst string_of_nat.simps) simp

lemma string_of_nat_no_colon: "CHR '':'' \<notin> set (string_of_nat n)"
proof (induction n rule: string_of_nat.induct)
  case (1 n)
  show ?case
  proof (cases "n < 10")
    case True
    then show ?thesis
      by (subst string_of_nat.simps) (simp add: digit_not_colon digit_not_colon[symmetric])
  next
    case False
    then show ?thesis using 1
      by (subst string_of_nat.simps) (simp add: digit_not_colon digit_not_colon[symmetric])
  qed
qed

lemma string_of_nat_inj: "string_of_nat n = string_of_nat m \<Longrightarrow> n = m"
proof (induction n arbitrary: m rule: string_of_nat.induct)
  case (1 n)
  show ?case
  proof (cases "n < 10")
    case True
    show ?thesis
    proof (cases "m < 10")
      case mt: True
      with True 1(2) show ?thesis
        by (simp add: string_of_nat.simps[of n] string_of_nat.simps[of m] digit_inj)
    next
      case mf: False
      with True 1(2) show ?thesis
        by (simp add: string_of_nat.simps[of n] string_of_nat.simps[of m]
            string_of_nat_nonempty string_of_nat_nonempty[symmetric])
    qed
  next
    case False
    show ?thesis
    proof (cases "m < 10")
      case mt: True
      with False 1(2) show ?thesis
        by (simp add: string_of_nat.simps[of n] string_of_nat.simps[of m]
            string_of_nat_nonempty string_of_nat_nonempty[symmetric])
    next
      case mf: False
      with False 1(2) have e: "string_of_nat (n div 10) = string_of_nat (m div 10)"
        and d: "digit (n mod 10) = digit (m mod 10)"
        by (simp_all add: string_of_nat.simps[of n] string_of_nat.simps[of m])
      from 1(1)[OF False e] have "n div 10 = m div 10" .
      moreover from d have "n mod 10 = m mod 10" by (intro digit_inj) simp_all
      ultimately show ?thesis by (metis div_mult_mod_eq)
    qed
  qed
qed

lemma key_part000_eq:
  "window_key_part000 ip name t1 = window_key_part000 ip name t2 \<longleftrightarrow> getMinutes t1 = getMinutes t2"
  by (auto simp: window_key_part000_def dest: string_of_nat_inj)

lemma key_index_eq:
  "window_key_index ip t1 = window_key_index ip t2 \<longleftrightarrow> getMinutes t1 = getMinutes t2"
  by (auto simp: window_key_index_def dest: string_of_nat_inj)

text \<open>A string is cut in one way only at its last occurrence of a character.\<close>

lemma split_at_last:
  assumes e: "xs @ c # ys = xs' @ c # ys'" and "c \<notin> set ys" "c \<notin> set ys'"
  shows "xs = xs' \<and> ys = ys'"
proof -
  have "takeWhile (\<lambda>x. x \<noteq> c) (rev ys @ c # rev xs) = rev ys"
    using assms(2) by (subst takeWhile_append2) auto
  moreover have "takeWhile (\<lambda>x. x \<noteq> c) (rev ys' @ c # rev xs') = rev ys'"
    using assms(3) by (subst takeWhile_append2) auto
  moreover have "rev ys @ c # rev xs = rev ys' @ c # rev xs'"
    using arg_cong[OF e, of rev] by simp
  ultimately have "ys = ys'" by simp
  with e show ?thesis by simp
qed

lemma key_part000_scope:
  "window_key_part000 ip n1 t1 = window_key_part000 ip n2 t2 \<Longrightarrow> n1 = n2"
  using split_at_last[of n1 "CHR '':''" "string_of_nat (getMinutes t1)" n2
      "string_of_nat (getMinutes t2)"]
  by (simp add: window_key_part000_def string_of_nat_no_colon)

lemma same_calendar_minute:
  "calendar_minute t' = calendar_minute t \<Longrightarrow> getMinutes t' = getMinutes t"
  by (simp add: calendar_minute_def getMinutes_def)

subsection \<open>The window key\<close>

text \<open>
  C3, in the form that holds of the code. The window key is a function of \<^verbatim>\<open>sourceIp\<close>, the scope (in
  \<^verbatim>\<open>part_000\<close>) and \<^verbatim>\<open>getMinutes()\<close>, the minute of the hour: for one identity, two
  requests have the same key exactly when their minutes of the hour are equal. Requests of
  the same calendar minute therefore have the same key; requests of different calendar
  minutes have different keys only when their minutes of the hour differ.
\<close>

theorem C3_key_by_minute_of_hour:
  "(window_key_part000 ip name t1 = window_key_part000 ip name t2 \<longleftrightarrow> getMinutes t1 = getMinutes t2)
 \<and> (window_key_index ip t1 = window_key_index ip t2 \<longleftrightarrow> getMinutes t1 = getMinutes t2)
 \<and> (calendar_minute t1 = calendar_minute t2 \<longrightarrow>
       window_key_part000 ip name t1 = window_key_part000 ip name t2
     \<and> window_key_index ip t1 = window_key_index ip t2)"
  by (simp add: key_part000_eq key_index_eq getMinutes_def calendar_minute_def)

theorem C3_key_by_minute_of_hour_witness:
  "calendar_minute 60000 = calendar_minute 119999
 \<and> window_key_part000 ''10.0.0.1'' ''hello'' 60000 = window_key_part000 ''10.0.0.1'' ''hello'' 119999
 \<and> getMinutes 60000 \<noteq> getMinutes 120000
 \<and> window_key_part000 ''10.0.0.1'' ''hello'' 60000 \<noteq> window_key_part000 ''10.0.0.1'' ''hello'' 120000
 \<and> window_key_index ''10.0.0.1'' 60000 \<noteq> window_key_index ''10.0.0.1'' 120000"
proof -
  have a: "calendar_minute 60000 = calendar_minute 119999" by (simp add: calendar_minute_def)
  have b: "getMinutes 60000 \<noteq> getMinutes 120000" by (simp add: getMinutes_def)
  show ?thesis
    using a b C3_key_by_minute_of_hour[of "''10.0.0.1''" "''hello''" 60000 119999]
      C3_key_by_minute_of_hour[of "''10.0.0.1''" "''hello''" 60000 120000]
    by blast
qed

text \<open>
  C3 as stated fails: midnight and one o'clock are different calendar minutes with the
  same minute of the hour, and the keys of one caller at these two instants are equal.
\<close>

theorem C3_counterexample:
  "window_key_part000 ''10.0.0.1'' ''hello'' 0 = window_key_part000 ''10.0.0.1'' ''hello'' 3600000
 \<and> window_key_index ''10.0.0.1'' 0 = window_key_index ''10.0.0.1'' 3600000
 \<and> calendar_minute 0 \<noteq> calendar_minute 3600000"
  by (simp add: window_key_part000_def window_key_index_def getMinutes_def calendar_minute_def)

subsection \<open>The connection of \<^verbatim>\<open>part_000\<close> gives up after five retries\<close>

lemma errors_in_append: "errors_in (xs @ ys) = errors_in xs + errors_in ys"
  by (induction xs rule: errors_in.induct) simp_all

lemma on_event_error_retryCount:
  "retryCount (fst (on_event c (ErrorEvent e))) = Suc (retryCount c)"
  by (simp add: on_event_def on_error_def Let_def)

lemma on_event_error_disconnected:
  "disconnected (fst (on_event c (ErrorEvent e))) \<longleftrightarrow> disconnected c \<or> 5 \<le> retryCount c"
  by (simp add: on_event_def on_error_def Let_def)

lemma on_event_reconnecting: "fst (on_event c ReconnectingEvent) = c"
  by (simp add: on_event_def)

lemma retryCount_after: "retryCount (connector_after c evs) = retryCount c + errors_in evs"
proof (induction evs arbitrary: c rule: errors_in.induct)
  case 1
  show ?case by simp
next
  case (2 e evs)
  show ?case by (simp add: 2 on_event_error_retryCount)
next
  case (3 evs)
  show ?case by (simp add: 3 on_event_reconnecting)
qed

lemma disconnected_after:
  "disconnected (connector_after c evs) \<longleftrightarrow>
     disconnected c \<or> (0 < errors_in evs \<and> 5 < retryCount c + errors_in evs)"
proof (induction evs arbitrary: c rule: errors_in.induct)
  case 1
  show ?case by simp
next
  case (2 e evs)
  show ?case
    unfolding connector_after.simps errors_in.simps 2 on_event_error_retryCount
      on_event_error_disconnected
    by arith
next
  case (3 evs)
  show ?case by (simp add: 3 on_event_reconnecting)
qed

text \<open>
  C8. Once the connection has reported more than five errors (the first failure and
  five retries), the retry strategy yields no delay and the client is disconnected, and
  this stays so whatever events follow; the error that exceeds the budget is logged with
  the message that polling stops, and is thrown. As long as at most five errors were
  reported, the retry strategy yields 1000 ms and the client is not disconnected.
\<close>

theorem C8_retry_budget:
  "(5 < errors_in evs \<longrightarrow>
      retryStrategy (connector_after connecting (evs @ later)) = None
    \<and> disconnected (connector_after connecting (evs @ later)))
 \<and> (errors_in evs \<le> 5 \<longrightarrow>
      retryStrategy (connector_after connecting evs) = Some 1000
    \<and> \<not> disconnected (connector_after connecting evs))
 \<and> (errors_in evs = 5 \<longrightarrow>
      on_event (connector_after connecting evs) (ErrorEvent e) =
        (\<lparr>retryCount = 6, disconnected = True\<rparr>,
         [LogConcat ''Could not connect to the Redis database. '' e,
          Log ''Could not connect to the Redis database after 5 retries. Stopping polling.''],
         Some e))"
proof (intro conjI impI)
  assume a: "5 < errors_in evs"
  show "retryStrategy (connector_after connecting (evs @ later)) = None"
    using a by (simp add: retryStrategy_def retryCount_after errors_in_append connecting_def)
  show "disconnected (connector_after connecting (evs @ later))"
    using a by (simp add: disconnected_after errors_in_append connecting_def)
next
  assume a: "errors_in evs \<le> 5"
  show "retryStrategy (connector_after connecting evs) = Some 1000"
    using a by (simp add: retryStrategy_def retryCount_after connecting_def)
  show "\<not> disconnected (connector_after connecting evs)"
    using a by (simp add: disconnected_after connecting_def)
next
  assume a: "errors_in evs = 5"
  have r: "retryCount (connector_after connecting evs) = 5"
    using a by (simp add: retryCount_after connecting_def)
  have d: "\<not> disconnected (connector_after connecting evs)"
    using a by (simp add: disconnected_after connecting_def)
  show "on_event (connector_after connecting evs) (ErrorEvent e) =
        (\<lparr>retryCount = 6, disconnected = True\<rparr>,
         [LogConcat ''Could not connect to the Redis database. '' e,
          Log ''Could not connect to the Redis database after 5 retries. Stopping polling.''],
         Some e)"
    using r d by (cases "connector_after connecting evs") (simp add: on_event_def on_error_def)
qed

theorem C8_retry_budget_witness:
  "5 < errors_in (replicate 6 (ErrorEvent RedisError))
 \<and> retryStrategy (connector_after connecting
       (replicate 6 (ErrorEvent RedisError) @ [ReconnectingEvent])) = None
 \<and> disconnected (connector_after connecting
       (replicate 6 (ErrorEvent RedisError) @ [ReconnectingEvent]))
 \<and> errors_in [ErrorEvent RedisError, ReconnectingEvent] \<le> 5
 \<and> retryStrategy (connector_after connecting [ErrorEvent RedisError, ReconnectingEvent]) = Some 1000
 \<and> \<not> disconnected (connector_after connecting [ErrorEvent RedisError, ReconnectingEvent])"
proof -
  have six: "replicate 6 (ErrorEvent RedisError) =
    [ErrorEvent RedisError, ErrorEvent RedisError, ErrorEvent RedisError,
     ErrorEvent RedisError, ErrorEvent RedisError, ErrorEvent RedisError]"
    by (simp add: numeral_eq_Suc)
  have a: "5 < errors_in (replicate 6 (ErrorEvent RedisError))" by (simp add: six)
  have b: "errors_in [ErrorEvent RedisError, ReconnectingEvent] \<le> 5" by simp
  show ?thesis
    using a b C8_retry_budget[of "replicate 6 (ErrorEvent RedisError)" "[ReconnectingEvent]"]
      C8_retry_budget[of "[ErrorEvent RedisError, ReconnectingEvent]"]
    by blast
qed

subsection \<open>A configured limit of 0\<close>

text \<open>
  C10. When the limit is configured as 0, the threshold of every admission decision is
  50: in both variants the call is rejected with the rate-limit error exactly when the
  first argument is a GnzContext, the client exists, the read succeeds and the counter
  read is at least 50.
\<close>

theorem C10_limit_zero_is_default:
  assumes "limit (dict L) = Some 0"
  shows "limit_or_default (dict L) = 50
    \<and> (result (wrapped_part000 L name handler w args) = Inl rate_limit_exceeded \<longleftrightarrow>
           lacks_marker args = Inr False \<and> redisClient L \<noteq> None \<and> failure w \<noteq> GetFails \<and>
           (\<exists>ip c. sourceIp args = Inr ip \<and>
              redis_get (redis w) (window_key_part000 ip name (date w)) (date w) = Some c \<and> 50 \<le> c))
    \<and> (result (wrapped_index L name handler w args) = Inl rate_limit_exceeded \<longleftrightarrow>
           lacks_marker args = Inr False \<and> redisClient L \<noteq> None \<and> failure w \<noteq> GetFails \<and>
           (\<exists>ip c. sourceIp args = Inr ip \<and>
              redis_get (redis w) (window_key_index ip (date w)) (date w) = Some c \<and> 50 \<le> c))"
proof (intro conjI)
  show l: "limit_or_default (dict L) = 50" using assms by (simp add: limit_or_default_def)
  show "result (wrapped_part000 L name handler w args) = Inl rate_limit_exceeded \<longleftrightarrow>
           lacks_marker args = Inr False \<and> redisClient L \<noteq> None \<and> failure w \<noteq> GetFails \<and>
           (\<exists>ip c. sourceIp args = Inr ip \<and>
              redis_get (redis w) (window_key_part000 ip name (date w)) (date w) = Some c \<and> 50 \<le> c)"
    by (auto simp: wrapped_defs l Let_def limit_reached_def error_code_rate_limit
        split: sum.splits bool.splits option.splits if_splits
        dest: lacks_marker_Inl sourceIp_Inl)
  show "result (wrapped_index L name handler w args) = Inl rate_limit_exceeded \<longleftrightarrow>
           lacks_marker args = Inr False \<and> redisClient L \<noteq> None \<and> failure w \<noteq> GetFails \<and>
           (\<exists>ip c. sourceIp args = Inr ip \<and>
              redis_get (redis w) (window_key_index ip (date w)) (date w) = Some c \<and> 50 \<le> c)"
    by (auto simp: wrapped_defs l Let_def limit_reached_def error_code_rate_limit
        split: sum.splits bool.splits option.splits if_splits
        dest: lacks_marker_Inl sourceIp_Inl)
qed

theorem C10_limit_zero_is_default_witness:
  "limit (dict \<lparr>dict = \<lparr>dbUrl = None, limit = Some 0, refreshRate = None\<rparr>,
                redisClient = Some ''redis://localhost:6379''\<rparr>) = Some 0
 \<and> limit_or_default \<lparr>dbUrl = None, limit = Some 0, refreshRate = None\<rparr> = 50
 \<and> result (wrapped_part000
      \<lparr>dict = \<lparr>dbUrl = None, limit = Some 0, refreshRate = None\<rparr>,
       redisClient = Some ''redis://localhost:6379''\<rparr>
      ''hello'' length
      \<lparr>date = 0, redis = [window_key_part000 ''10.0.0.1'' ''hello'' 0 \<mapsto> (50, 59000)],
       failure = Healthy\<rparr>
      [Object True (Some ''10.0.0.1'')]) = Inl rate_limit_exceeded
 \<and> result (wrapped_part000
      \<lparr>dict = \<lparr>dbUrl = None, limit = Some 0, refreshRate = None\<rparr>,
       redisClient = Some ''redis://localhost:6379''\<rparr>
      ''hello'' length
      \<lparr>date = 0, redis = [window_key_part000 ''10.0.0.1'' ''hello'' 0 \<mapsto> (49, 59000)],
       failure = Healthy\<rparr>
      [Object True (Some ''10.0.0.1'')]) \<noteq> Inl rate_limit_exceeded"
proof -
  let ?L = "\<lparr>dict = \<lparr>dbUrl = None, limit = Some 0, refreshRate = None\<rparr>,
             redisClient = Some ''redis://localhost:6379''\<rparr>"
  have z: "limit (dict ?L) = Some 0" by simp
  show ?thesis
    using z
      C10_limit_zero_is_default[OF z, of "''hello''" length
        "\<lparr>date = 0, redis = [window_key_part000 ''10.0.0.1'' ''hello'' 0 \<mapsto> (50, 59000)],
          failure = Healthy\<rparr>" "[Object True (Some ''10.0.0.1'')]"]
      C10_limit_zero_is_default[OF z, of "''hello''" length
        "\<lparr>date = 0, redis = [window_key_part000 ''10.0.0.1'' ''hello'' 0 \<mapsto> (49, 59000)],
          failure = Healthy\<rparr>" "[Object True (Some ''10.0.0.1'')]"]
    by (simp add: redis_get_def)
qed

subsection \<open>Requests without a GnzContext\<close>

text \<open>
  C7, in the form that holds of the code. When the argument list is empty, or its first element is a value other
  than \<^verbatim>\<open>undefined\<close> and \<^verbatim>\<open>null\<close> whose \<^verbatim>\<open>isGnzContext\<close> is not truthy:
  the variant of \<^verbatim>\<open>part_000\<close> logs an error message and throws the BadRequest error of
  a malformed context, sends no command to the store, leaves the store as it was and does
  not call the handler; the variant of \<^verbatim>\<open>index.ts\<close> logs a warning (and nothing else),
  sends no command to the store, leaves the store as it was and calls the handler once with
  the arguments, returning its result.
\<close>

theorem C7_missing_context:
  assumes "lacks_marker args = Inr True"
  shows "result (wrapped_part000 L name handler w args) = Inl not_a_context_error
       \<and> error_code not_a_context_error = Some BadRequest
       \<and> store_ops (wrapped_part000 L name handler w args) = []
       \<and> redis_after (wrapped_part000 L name handler w args) = redis w
       \<and> calls (wrapped_part000 L name handler w args) = []
       \<and> console (wrapped_part000 L name handler w args)
           = [Log ''Error: the GenezioRateLimiter decorator must be used with the first parameter being a GnzContext object'']
       \<and> result (wrapped_index L name handler w args) = Inr (handler args)
       \<and> store_ops (wrapped_index L name handler w args) = []
       \<and> redis_after (wrapped_index L name handler w args) = redis w
       \<and> calls (wrapped_index L name handler w args) = [args]
       \<and> console (wrapped_index L name handler w args)
           = [Log ''Warning: the GenezioRateLimiter decorator must be used with the first parameter being a GnzContext object'']"
  using assms by (simp add: wrapped_defs not_a_context_error_def)

theorem C7_missing_context_witness:
  "lacks_marker [Primitive ''42''] = Inr True
 \<and> result (wrapped_part000
      \<lparr>dict = \<lparr>dbUrl = None, limit = None, refreshRate = None\<rparr>,
       redisClient = Some ''redis://localhost:6379''\<rparr>
      ''hello'' length \<lparr>date = 0, redis = Map.empty, failure = Healthy\<rparr>
      [Primitive ''42'']) = Inl not_a_context_error
 \<and> store_ops (wrapped_part000
      \<lparr>dict = \<lparr>dbUrl = None, limit = None, refreshRate = None\<rparr>,
       redisClient = Some ''redis://localhost:6379''\<rparr>
      ''hello'' length \<lparr>date = 0, redis = Map.empty, failure = Healthy\<rparr>
      [Primitive ''42'']) = []
 \<and> result (wrapped_index
      \<lparr>dict = \<lparr>dbUrl = None, limit = None, refreshRate = None\<rparr>,
       redisClient = Some ''redis://localhost:6379''\<rparr>
      ''hello'' length \<lparr>date = 0, redis = Map.empty, failure = Healthy\<rparr>
      [Primitive ''42'']) = Inr (length [Primitive ''42''])
 \<and> console (wrapped_index
      \<lparr>dict = \<lparr>dbUrl = None, limit = None, refreshRate = None\<rparr>,
       redisClient = Some ''redis://localhost:6379''\<rparr>
      ''hello'' length \<lparr>date = 0, redis = Map.empty, failure = Healthy\<rparr>
      [Primitive ''42''])
    = [Log ''Warning: the GenezioRateLimiter decorator must be used with the first parameter being a GnzContext object'']"
proof -
  have a: "lacks_marker [Primitive ''42''] = Inr True" by simp
  show ?thesis
    using a C7_missing_context[OF a,
        of "\<lparr>dict = \<lparr>dbUrl = None, limit = None, refreshRate = None\<rparr>,
             redisClient = Some ''redis://localhost:6379''\<rparr>"
           "''hello''" length "\<lparr>date = 0, redis = Map.empty, failure = Healthy\<rparr>"]
    by blast
qed

text \<open>
  A first argument that is \<^verbatim>\<open>undefined\<close> or \<^verbatim>\<open>null\<close> makes the test of the
  marker itself throw a \<^verbatim>\<open>TypeError\<close>, in both variants, before anything else happens.
\<close>

lemma undefined_first_argument:
  "lacks_marker args = Inl e \<Longrightarrow>
     result (wrapped_part000 L name handler w args) = Inl TypeError
   \<and> result (wrapped_index L name handler w args) = Inl TypeError
   \<and> calls (wrapped_part000 L name handler w args) = []
   \<and> calls (wrapped_index L name handler w args) = []"
  using lacks_marker_Inl[of args e] by (simp add: wrapped_defs)

text \<open>
  C7 as stated fails on \<^verbatim>\<open>index.ts\<close>: called with no argument, the wrapped function
  raises nothing and returns what the handler returns.
\<close>

theorem C7_counterexample:
  "result (wrapped_index
      \<lparr>dict = \<lparr>dbUrl = None, limit = None, refreshRate = None\<rparr>, redisClient = Some []\<rparr>
      ''hello'' length \<lparr>date = 0, redis = Map.empty, failure = Healthy\<rparr> []) = Inr 0
 \<and> calls (wrapped_index
      \<lparr>dict = \<lparr>dbUrl = None, limit = None, refreshRate = None\<rparr>, redisClient = Some []\<rparr>
      ''hello'' length \<lparr>date = 0, redis = Map.empty, failure = Healthy\<rparr> []) = [[]]"
  by (simp add: wrapped_defs)

subsection \<open>Errors of the store\<close>

text \<open>
  C2, in the form that holds of the code. For a request with a GnzContext on a limiter whose client exists, when
  the read of the counter fails, or the counter is below the limit and the increment with
  its expiry fails: the variant of \<^verbatim>\<open>index.ts\<close> logs the error, swallows it and calls
  the handler, whose result it returns; the variant of \<^verbatim>\<open>part_000\<close> logs a message and
  throws the error again, so that it reaches the caller and the handler is not called.
\<close>

theorem C2_store_errors:
  assumes "args = Object True (Some ip) # rest" and "redisClient L = Some client"
  shows "(failure w = GetFails \<longrightarrow>
            result (wrapped_index L name handler w args) = Inr (handler args)
          \<and> calls (wrapped_index L name handler w args) = [args]
          \<and> console (wrapped_index L name handler w args)
              = [Log opperating_error_log, LogError RedisError]
          \<and> result (wrapped_part000 L name handler w args) = Inl RedisError
          \<and> calls (wrapped_part000 L name handler w args) = []
          \<and> console (wrapped_part000 L name handler w args) = [Log operating_error_log])
       \<and> (failure w = ExecFails
            \<and> \<not> limit_reached (redis_get (redis w) (window_key_index ip (date w)) (date w))
                  (limit_or_default (dict L)) \<longrightarrow>
            result (wrapped_index L name handler w args) = Inr (handler args)
          \<and> calls (wrapped_index L name handler w args) = [args]
          \<and> console (wrapped_index L name handler w args)
              = [Log opperating_error_log, LogError RedisError])
       \<and> (failure w = ExecFails
            \<and> \<not> limit_reached (redis_get (redis w) (window_key_part000 ip name (date w)) (date w))
                  (limit_or_default (dict L))
            \<and> \<not> refreshRate_too_small (dict L) \<longrightarrow>
            result (wrapped_part000 L name handler w args) = Inl RedisError
          \<and> calls (wrapped_part000 L name handler w args) = []
          \<and> console (wrapped_part000 L name handler w args) = [Log operating_error_log])"
  using assms by (simp add: wrapped_defs Let_def)

theorem C2_store_errors_witness:
  "failure \<lparr>date = 0, redis = Map.empty, failure = GetFails\<rparr> = GetFails
 \<and> result (wrapped_index
      \<lparr>dict = \<lparr>dbUrl = None, limit = None, refreshRate = None\<rparr>,
       redisClient = Some ''redis://localhost:6379''\<rparr>
      ''hello'' length \<lparr>date = 0, redis = Map.empty, failure = GetFails\<rparr>
      [Object True (Some ''10.0.0.1'')]) = Inr 1
 \<and> result (wrapped_part000
      \<lparr>dict = \<lparr>dbUrl = None, limit = None, refreshRate = None\<rparr>,
       redisClient = Some ''redis://localhost:6379''\<rparr>
      ''hello'' length \<lparr>date = 0, redis = Map.empty, failure = GetFails\<rparr>
      [Object True (Some ''10.0.0.1'')]) = Inl RedisError"
proof -
  let ?L = "\<lparr>dict = \<lparr>dbUrl = None, limit = None, refreshRate = None\<rparr>,
             redisClient = Some ''redis://localhost:6379''\<rparr>"
  let ?w = "\<lparr>date = 0, redis = Map.empty, failure = GetFails\<rparr>"
  have c: "redisClient ?L = Some ''redis://localhost:6379''" by simp
  have f: "failure ?w = GetFails" by simp
  show ?thesis
    using f C2_store_errors[where ip = "''10.0.0.1''" and rest = "[]" and w = ?w
        and name = "''hello''" and handler = length, OF refl c]
    by simp
qed

text \<open>
  C2 as stated fails on \<^verbatim>\<open>part_000\<close>: a failed read of the counter reaches the caller
  and the handler is not called.
\<close>

theorem C2_counterexample:
  "result (wrapped_part000
      \<lparr>dict = \<lparr>dbUrl = None, limit = None, refreshRate = None\<rparr>,
       redisClient = Some ''redis://localhost:6379''\<rparr>
      ''hello'' length \<lparr>date = 0, redis = Map.empty, failure = GetFails\<rparr>
      [Object True (Some ''10.0.0.1'')]) = Inl RedisError
 \<and> calls (wrapped_part000
      \<lparr>dict = \<lparr>dbUrl = None, limit = None, refreshRate = None\<rparr>,
       redisClient = Some ''redis://localhost:6379''\<rparr>
      ''hello'' length \<lparr>date = 0, redis = Map.empty, failure = GetFails\<rparr>
      [Object True (Some ''10.0.0.1'')]) = []"
  by (simp add: wrapped_defs)

subsection \<open>A refresh rate below one second\<close>

text \<open>
  C4, in the form that holds of the code. In \<^verbatim>\<open>part_000\<close>, when \<^verbatim>\<open>refreshRate\<close> is negative, a request with a
  GnzContext whose read of the counter succeeds and finds it below the limit fails with
  the BadRequest error of the refresh rate. The store was read once (one \<^verbatim>\<open>GET\<close>) before
  the error; it is not modified (no \<^verbatim>\<open>INCR\<close>, no \<^verbatim>\<open>EXPIRE\<close>), and the handler is not
  called.
\<close>

theorem C4_negative_refresh_rate:
  assumes "refreshRate (dict L) = Some r" and "r < 0"
    and "args = Object True (Some ip) # rest" and "redisClient L = Some client"
    and "failure w \<noteq> GetFails"
    and "\<not> limit_reached (redis_get (redis w) (window_key_part000 ip name (date w)) (date w))
            (limit_or_default (dict L))"
  shows "result (wrapped_part000 L name handler w args) = Inl refresh_rate_error
       \<and> error_code refresh_rate_error = Some BadRequest
       \<and> store_ops (wrapped_part000 L name handler w args)
           = [GET (window_key_part000 ip name (date w))]
       \<and> redis_after (wrapped_part000 L name handler w args) = redis w
       \<and> calls (wrapped_part000 L name handler w args) = []"
  using assms by (simp add: wrapped_defs Let_def refreshRate_too_small_def error_code_refresh)

theorem C4_negative_refresh_rate_witness:
  "refreshRate \<lparr>dbUrl = None, limit = None, refreshRate = Some (- 5)\<rparr> = Some (- 5)
 \<and> (- 5 :: int) < 0
 \<and> \<not> limit_reached (redis_get Map.empty (window_key_part000 ''10.0.0.1'' ''hello'' 0) 0)
        (limit_or_default \<lparr>dbUrl = None, limit = None, refreshRate = Some (- 5)\<rparr>)
 \<and> result (wrapped_part000
      \<lparr>dict = \<lparr>dbUrl = None, limit = None, refreshRate = Some (- 5)\<rparr>,
       redisClient = Some ''redis://localhost:6379''\<rparr>
      ''hello'' length \<lparr>date = 0, redis = Map.empty, failure = Healthy\<rparr>
      [Object True (Some ''10.0.0.1'')]) = Inl refresh_rate_error
 \<and> store_ops (wrapped_part000
      \<lparr>dict = \<lparr>dbUrl = None, limit = None, refreshRate = Some (- 5)\<rparr>,
       redisClient = Some ''redis://localhost:6379''\<rparr>
      ''hello'' length \<lparr>date = 0, redis = Map.empty, failure = Healthy\<rparr>
      [Object True (Some ''10.0.0.1'')]) = [GET (window_key_part000 ''10.0.0.1'' ''hello'' 0)]"
proof -
  let ?d = "\<lparr>dbUrl = None, limit = None, refreshRate = Some (- 5)\<rparr>"
  let ?L = "\<lparr>dict = ?d, redisClient = Some ''redis://localhost:6379''\<rparr>"
  let ?w = "\<lparr>date = 0, redis = Map.empty, failure = Healthy\<rparr>"
  have h1: "refreshRate (dict ?L) = Some (- 5)" by simp
  have h2: "(- 5 :: int) < 0" by simp
  have h4: "redisClient ?L = Some ''redis://localhost:6379''" by simp
  have h5: "failure ?w \<noteq> GetFails" by simp
  have h6: "\<not> limit_reached
      (redis_get (redis ?w) (window_key_part000 ''10.0.0.1'' ''hello'' (date ?w)) (date ?w))
      (limit_or_default (dict ?L))"
    by (simp add: redis_get_def limit_reached_def)
  show ?thesis
    using h1 h2 h6 C4_negative_refresh_rate[where rest = "[]" and handler = length,
        OF h1 h2 refl h4 h5 h6]
    by simp
qed

text \<open>
  A \<^verbatim>\<open>refreshRate\<close> of 0 is falsy: it is not refused, and the expiry is 59 seconds.
\<close>

lemma refreshRate_zero:
  "refreshRate d = Some 0 \<Longrightarrow> \<not> refreshRate_too_small d \<and> refreshRate_or_default d = 59"
  by (simp add: refreshRate_too_small_def refreshRate_or_default_def)

text \<open>
  C4 as stated fails: with \<^verbatim>\<open>refreshRate = -1\<close> the request is refused with the
  BadRequest error, but only after the counter was read from the store.
\<close>

theorem C4_counterexample:
  "result (wrapped_part000
      \<lparr>dict = \<lparr>dbUrl = None, limit = None, refreshRate = Some (- 1)\<rparr>,
       redisClient = Some ''redis://localhost:6379''\<rparr>
      ''hello'' length \<lparr>date = 0, redis = Map.empty, failure = Healthy\<rparr>
      [Object True (Some ''10.0.0.1'')]) = Inl refresh_rate_error
 \<and> store_ops (wrapped_part000
      \<lparr>dict = \<lparr>dbUrl = None, limit = None, refreshRate = Some (- 1)\<rparr>,
       redisClient = Some ''redis://localhost:6379''\<rparr>
      ''hello'' length \<lparr>date = 0, redis = Map.empty, failure = Healthy\<rparr>
      [Object True (Some ''10.0.0.1'')]) = [GET ''10.0.0.1:hello:0'']"
  by (simp add: wrapped_defs Let_def redis_get_def limit_reached_def refreshRate_too_small_def
      window_key_part000_def getMinutes_def string_of_nat.simps digit_def error_code_refresh)

subsection \<open>Counting up to the limit\<close>

text \<open>
  A call whose two stages run with nothing in between, at one instant, is the wrapped
  function as defined above.
\<close>

lemma wrapped_part000_stages:
  "wrapped_part000 L name handler w args =
     (case begin_part000 L name handler w args of
        Finished out \<Rightarrow> out
      | Awaiting k seconds \<Rightarrow> complete_part000 handler args k seconds w)"
  by (auto simp: wrapped_defs begin_part000_def complete_part000_def Let_def
      error_code_rate_limit error_code_refresh
      split: sum.splits bool.splits option.splits dest: sourceIp_Inl)

lemma wrapped_index_stages:
  "wrapped_index L name handler w args =
     (case begin_index L name handler w args of
        Finished out \<Rightarrow> out
      | Awaiting k seconds \<Rightarrow> complete_index handler args k seconds w)"
  by (auto simp: wrapped_defs begin_index_def complete_index_def Let_def
      error_code_rate_limit
      split: sum.splits bool.splits option.splits dest: sourceIp_Inl)


lemma redis_get_cong: "db k = db' k \<Longrightarrow> redis_get db k t = redis_get db' k t"
  by (simp add: redis_get_def)

lemma counter_cong: "db k = db' k \<Longrightarrow> counter db k t = counter db' k t"
  by (simp add: counter_def redis_get_def)

lemma begin_part000_Awaiting:
  "begin_part000 L name handler w args = Awaiting k s \<Longrightarrow>
     \<exists>ip. sourceIp args = Inr ip \<and> k = window_key_part000 ip name (date w)"
  by (auto simp: begin_part000_def Let_def split: sum.splits bool.splits option.splits if_splits)

lemma others_elsewhereD:
  "others_elsewhere k i0 st \<Longrightarrow> j < i0 \<Longrightarrow> waiting st j = Some (n, a, k', s) \<Longrightarrow> k' \<noteq> k"
  unfolding others_elsewhere_def by blast

lemma aside_step_part000:
  assumes "aside_part000 k i0 x" and "others_elsewhere k i0 st"
  shows "store (step_part000 handlers st x) k = store st k
       \<and> others_elsewhere k i0 (step_part000 handlers st x)
       \<and> (\<forall>i \<ge> i0. waiting (step_part000 handlers st x) i = waiting st i)
       \<and> filter (\<lambda>r. i0 \<le> fst r) (finished (step_part000 handlers st x))
           = filter (\<lambda>r. i0 \<le> fst r) (finished st)"
proof (cases x)
  case (Call j L name args t f)
  with assms(1) have j: "j < i0"
    and key: "\<And>ip. sourceIp args = Inr ip \<Longrightarrow> window_key_part000 ip name t \<noteq> k"
    by (auto split: sum.splits)
  show ?thesis
  proof (cases "begin_part000 L name (handlers name) \<lparr>date = t, redis = store st, failure = f\<rparr> args")
    case (Finished out)
    with Call j assms(2) show ?thesis by (simp add: others_elsewhere_def)
  next
    case (Awaiting k' s)
    from begin_part000_Awaiting[OF this] key have "k' \<noteq> k" by auto
    with Call Awaiting j assms(2) show ?thesis by (auto simp: others_elsewhere_def)
  qed
next
  case (Exec j t f)
  with assms(1) have j: "j < i0" by simp
  show ?thesis
  proof (cases "waiting st j")
    case None
    with Exec assms(2) show ?thesis by simp
  next
    case (Some p)
    obtain n a k' s where p: "p = (n, a, k', s)" by (cases p) auto
    from others_elsewhereD[OF assms(2) j Some[unfolded p]] have ne: "k' \<noteq> k" .
    have st: "store (step_part000 handlers st x) k = store st k"
      using Exec Some p ne
      by (simp add: complete_part000_def throw_def invoke_def redis_incr_expire_def Let_def)
    have w: "\<forall>i \<ge> i0. waiting (step_part000 handlers st x) i = waiting st i"
      using Exec Some p j by (simp add: Let_def)
    have f: "filter (\<lambda>r. i0 \<le> fst r) (finished (step_part000 handlers st x))
           = filter (\<lambda>r. i0 \<le> fst r) (finished st)"
      using Exec Some p j by (simp add: Let_def)
    have o: "others_elsewhere k i0 (step_part000 handlers st x)"
      using Exec Some p assms(2) by (simp add: Let_def others_elsewhere_def)
    from st w f o show ?thesis by blast
  qed
qed

lemma aside_steps_part000:
  "list_all (aside_part000 k i0) xs \<Longrightarrow> others_elsewhere k i0 st \<Longrightarrow>
     store (run_part000 handlers st xs) k = store st k
   \<and> others_elsewhere k i0 (run_part000 handlers st xs)
   \<and> (\<forall>i \<ge> i0. waiting (run_part000 handlers st xs) i = waiting st i)
   \<and> filter (\<lambda>r. i0 \<le> fst r) (finished (run_part000 handlers st xs))
       = filter (\<lambda>r. i0 \<le> fst r) (finished st)"
proof (induction xs arbitrary: st)
  case Nil
  then show ?case by (simp add: run_part000_def)
next
  case (Cons x xs)
  from Cons.prems have x: "aside_part000 k i0 x" and xs: "list_all (aside_part000 k i0) xs"
    by simp_all
  note one = aside_step_part000[OF x Cons.prems(2), of handlers]
  from one have q: "others_elsewhere k i0 (step_part000 handlers st x)" by blast
  from Cons.IH[OF xs q] one show ?case by (simp add: run_part000_def)
qed


lemma run_part000_append:
  "run_part000 handlers st (xs @ ys) = run_part000 handlers (run_part000 handlers st xs) ys"
  by (simp add: run_part000_def)

lemma run_part000_Cons:
  "run_part000 handlers st (x # xs) = run_part000 handlers (step_part000 handlers st x) xs"
  by (simp add: run_part000_def)

lemma run_part000_Nil: "run_part000 handlers st [] = st"
  by (simp add: run_part000_def)

lemma refreshRate_or_default_pos:
  "\<not> refreshRate_too_small d \<Longrightarrow> 1 \<le> refreshRate_or_default d"
  by (auto simp: refreshRate_too_small_def refreshRate_or_default_def split: option.splits)

lemma limit_reached_counter:
  "0 < l \<Longrightarrow> limit_reached (redis_get db k t) l \<longleftrightarrow> l \<le> counter db k t"
  by (simp add: limit_reached_def counter_def split: option.splits)

lemma entry_after_incr:
  "0 < s \<Longrightarrow> redis_incr_expire db k s t k = Some (counter db k t + 1, t + 1000 * nat s)"
  by (simp add: redis_incr_expire_def)

lemma counter_of_entry:
  "db k = Some (v, e) \<Longrightarrow> t \<le> e \<Longrightarrow> counter db k t = v"
  by (simp add: counter_def redis_get_def)

lemma call_admitted_part000:
  assumes "args = Object True (Some ip) # rest" "redisClient L = Some client"
    "\<not> refreshRate_too_small (dict L)" "0 < limit_or_default (dict L)"
    "counter (store st) (window_key_part000 ip name t) t < limit_or_default (dict L)"
  shows "step_part000 handlers st (Call i L name args t Healthy) =
     st\<lparr>waiting := (waiting st)(i \<mapsto> (name, args, window_key_part000 ip name t,
                                        refreshRate_or_default (dict L)))\<rparr>"
  using assms by (simp add: begin_part000_def Let_def limit_reached_counter)

lemma call_rejected_part000:
  assumes "args = Object True (Some ip) # rest" "redisClient L = Some client"
    "0 < limit_or_default (dict L)"
    "limit_or_default (dict L) \<le> counter (store st) (window_key_part000 ip name t) t"
  shows "step_part000 handlers st (Call i L name args t Healthy) =
     st\<lparr>finished := finished st @ [(i, Inl rate_limit_exceeded, [])]\<rparr>"
  using assms by (simp add: begin_part000_def Let_def limit_reached_counter throw_def)

lemma exec_part000:
  assumes "waiting st i = Some (name, args, k, s)"
  shows "step_part000 handlers st (Exec i t Healthy) =
     \<lparr>store = redis_incr_expire (store st) k s t, waiting = (waiting st)(i := None),
      finished = finished st @ [(i, Inr (handlers name args), [args])]\<rparr>"
  using assms by (simp add: complete_part000_def invoke_def Let_def)

declare step_part000.simps [simp del]

lemma turns_part000:
  assumes a: "args = Object True (Some ip) # more_args" and cl: "redisClient L = Some client"
    and nrs: "\<not> refreshRate_too_small (dict L)" and pos: "0 < limit_or_default (dict L)"
  shows "others_elsewhere k i0 st \<Longrightarrow> \<forall>j \<ge> i0. waiting st j = None \<Longrightarrow> i0 \<le> i \<Longrightarrow>
     window_key_part000 ip name tc = k \<Longrightarrow>
     counter (store st) k tc = c \<Longrightarrow> counter (store st) k te = c \<Longrightarrow>
     c \<le> limit_or_default (dict L) \<Longrightarrow>
     length rest = nat (limit_or_default (dict L) - c) \<Longrightarrow>
     paced (1000 * nat (refreshRate_or_default (dict L))) te rest \<Longrightarrow>
     \<forall>u \<in> set rest. getMinutes (called_at u) = getMinutes tc \<Longrightarrow>
     asides (aside_part000 k i0) ((b, tc, m, te) # rest) \<Longrightarrow>
     map snd (filter (\<lambda>r. i0 \<le> fst r)
        (finished (run_part000 handlers st (one_at_a_time L name args i ((b, tc, m, te) # rest)))))
     = map snd (filter (\<lambda>r. i0 \<le> fst r) (finished st))
       @ replicate (nat (limit_or_default (dict L) - c)) (Inr (handlers name args), [args])
       @ [(Inl rate_limit_exceeded, [])]"
proof (induction rest arbitrary: st i c b tc m te)
  case Nil
  let ?st1 = "run_part000 handlers st b"
  from Nil.prems have b: "list_all (aside_part000 k i0) b" and m: "list_all (aside_part000 k i0) m"
    by simp_all
  note B = aside_steps_part000[OF b Nil.prems(1), of handlers]
  from Nil.prems have "limit_or_default (dict L) \<le> c" by simp
  with Nil.prems(5) B have full: "limit_or_default (dict L) \<le> counter (store ?st1) k tc"
    using counter_cong[of "store ?st1" k "store st" tc] by simp
  let ?st2 = "?st1\<lparr>finished := finished ?st1 @ [(i, Inl rate_limit_exceeded, [])]\<rparr>"
  have s2: "step_part000 handlers ?st1 (Call i L name args tc Healthy) = ?st2"
    using call_rejected_part000[OF a cl pos, of ?st1 name tc handlers i] full Nil.prems(4)
    by simp
  have q2: "others_elsewhere k i0 ?st2" using B by (simp add: others_elsewhere_def)
  let ?st3 = "run_part000 handlers ?st2 m"
  note M = aside_steps_part000[OF m q2, of handlers]
  have w3: "waiting ?st3 i = None" using M B Nil.prems(2,3) by simp
  have s4: "step_part000 handlers ?st3 (Exec i te Healthy) = ?st3"
    using w3 by (simp add: step_part000.simps)
  have run: "run_part000 handlers st (one_at_a_time L name args i [(b, tc, m, te)]) = ?st3"
    by (simp add: run_part000_append run_part000_Cons run_part000_Nil s2 s4)
  have "filter (\<lambda>r. i0 \<le> fst r) (finished ?st3)
      = filter (\<lambda>r. i0 \<le> fst r) (finished st) @ [(i, Inl rate_limit_exceeded, [])]"
    using M B Nil.prems(3) by simp
  with run Nil.prems show ?case by simp
next
  case (Cons u rest)
  obtain b' tc' m' te' where u: "u = (b', tc', m', te')" by (cases u) auto
  let ?s = "refreshRate_or_default (dict L)"
  let ?lim = "limit_or_default (dict L)"
  have spos: "0 < ?s" using refreshRate_or_default_pos[OF nrs] by simp
  from Cons.prems have b: "list_all (aside_part000 k i0) b" and m: "list_all (aside_part000 k i0) m"
    and rest_asides: "asides (aside_part000 k i0) ((b', tc', m', te') # rest)"
    by (simp_all add: u)
  from Cons.prems have lt: "c < ?lim" by simp
  let ?st1 = "run_part000 handlers st b"
  note B = aside_steps_part000[OF b Cons.prems(1), of handlers]
  have c1: "counter (store ?st1) k tc < ?lim"
    using counter_cong[of "store ?st1" k "store st" tc] B Cons.prems(5) lt by simp
  let ?e = "(name, args, k, ?s)"
  let ?st2 = "?st1\<lparr>waiting := (waiting ?st1)(i \<mapsto> ?e)\<rparr>"
  have s2: "step_part000 handlers ?st1 (Call i L name args tc Healthy) = ?st2"
    using call_admitted_part000[OF a cl nrs pos, of ?st1 name tc handlers i] c1 Cons.prems(4)
    by simp
  have q2: "others_elsewhere k i0 ?st2"
    using B Cons.prems(3) by (auto simp: others_elsewhere_def)
  let ?st3 = "run_part000 handlers ?st2 m"
  note M = aside_steps_part000[OF m q2, of handlers]
  have w3: "waiting ?st3 i = Some ?e" using M Cons.prems(3) by simp
  let ?st4 = "\<lparr>store = redis_incr_expire (store ?st3) k ?s te, waiting = (waiting ?st3)(i := None),
      finished = finished ?st3 @ [(i, Inr (handlers name args), [args])]\<rparr>"
  have s4: "step_part000 handlers ?st3 (Exec i te Healthy) = ?st4"
    using exec_part000[OF w3, of handlers te] .
  have run: "run_part000 handlers st (one_at_a_time L name args i ((b, tc, m, te) # u # rest))
      = run_part000 handlers ?st4 (one_at_a_time L name args (Suc i) ((b', tc', m', te') # rest))"
    by (simp add: run_part000_append run_part000_Cons run_part000_Nil s2 s4 u)
  have q4: "others_elsewhere k i0 ?st4" using M by (auto simp: others_elsewhere_def)
  have w4: "\<forall>j \<ge> i0. waiting ?st4 j = None" using M B Cons.prems(2) by auto
  have st3k: "store ?st3 k = store st k" using M B by simp
  have c3: "counter (store ?st3) k te = c"
    using counter_cong[of "store ?st3" k "store st" te] st3k Cons.prems(6) by simp
  have ent: "store ?st4 k = Some (c + 1, te + 1000 * nat ?s)"
    using entry_after_incr[OF spos, of "store ?st3" k te] c3 by simp
  from Cons.prems(9) have times: "te \<le> tc'" "tc' \<le> te'" "te' \<le> te + 1000 * nat ?s"
    and pc: "paced (1000 * nat ?s) te' rest"
    by (simp_all add: u)
  from Cons.prems(10) have min': "getMinutes tc' = getMinutes tc"
    and mins: "\<forall>v \<in> set rest. getMinutes (called_at v) = getMinutes tc'"
    by (simp_all add: u)
  have k': "window_key_part000 ip name tc' = k"
    using min' Cons.prems(4) key_part000_eq[of ip name tc' tc] by simp
  have ctc: "counter (store ?st4) k tc' = c + 1"
    using counter_of_entry[of "store ?st4" k "c + 1" "te + 1000 * nat ?s" tc'] ent times by simp
  have cte: "counter (store ?st4) k te' = c + 1"
    using counter_of_entry[of "store ?st4" k "c + 1" "te + 1000 * nat ?s" te'] ent times by simp
  have le: "c + 1 \<le> ?lim" using lt by simp
  have len: "length rest = nat (?lim - (c + 1))" using Cons.prems(8) by simp
  have i': "i0 \<le> Suc i" using Cons.prems(3) by simp
  note IH = Cons.IH[OF q4 w4 i' k' ctc cte le len pc mins rest_asides]
  have f4: "filter (\<lambda>r. i0 \<le> fst r) (finished ?st4)
      = filter (\<lambda>r. i0 \<le> fst r) (finished st) @ [(i, Inr (handlers name args), [args])]"
    using M B Cons.prems(3) by simp
  have n: "nat (?lim - c) = Suc (nat (?lim - (c + 1)))" using lt by simp
  show ?case
    unfolding run IH f4 n by simp
qed


lemma begin_index_Awaiting:
  "begin_index L name handler w args = Awaiting k s \<Longrightarrow>
     \<exists>ip. sourceIp args = Inr ip \<and> k = window_key_index ip (date w)"
  by (auto simp: begin_index_def Let_def split: sum.splits bool.splits option.splits if_splits)

lemma aside_step_index:
  assumes "aside_index k i0 x" and "others_elsewhere k i0 st"
  shows "store (step_index handlers st x) k = store st k
       \<and> others_elsewhere k i0 (step_index handlers st x)
       \<and> (\<forall>i \<ge> i0. waiting (step_index handlers st x) i = waiting st i)
       \<and> filter (\<lambda>r. i0 \<le> fst r) (finished (step_index handlers st x))
           = filter (\<lambda>r. i0 \<le> fst r) (finished st)"
proof (cases x)
  case (Call j L name args t f)
  with assms(1) have j: "j < i0"
    and key: "\<And>ip. sourceIp args = Inr ip \<Longrightarrow> window_key_index ip t \<noteq> k"
    by (auto split: sum.splits)
  show ?thesis
  proof (cases "begin_index L name (handlers name) \<lparr>date = t, redis = store st, failure = f\<rparr> args")
    case (Finished out)
    with Call j assms(2) show ?thesis by (simp add: others_elsewhere_def)
  next
    case (Awaiting k' s)
    from begin_index_Awaiting[OF this] key have "k' \<noteq> k" by auto
    with Call Awaiting j assms(2) show ?thesis by (auto simp: others_elsewhere_def)
  qed
next
  case (Exec j t f)
  with assms(1) have j: "j < i0" by simp
  show ?thesis
  proof (cases "waiting st j")
    case None
    with Exec assms(2) show ?thesis by simp
  next
    case (Some p)
    obtain n a k' s where p: "p = (n, a, k', s)" by (cases p) auto
    from others_elsewhereD[OF assms(2) j Some[unfolded p]] have ne: "k' \<noteq> k" .
    have st: "store (step_index handlers st x) k = store st k"
      using Exec Some p ne
      by (simp add: complete_index_def throw_def invoke_def redis_incr_expire_def Let_def)
    have w: "\<forall>i \<ge> i0. waiting (step_index handlers st x) i = waiting st i"
      using Exec Some p j by (simp add: Let_def)
    have f: "filter (\<lambda>r. i0 \<le> fst r) (finished (step_index handlers st x))
           = filter (\<lambda>r. i0 \<le> fst r) (finished st)"
      using Exec Some p j by (simp add: Let_def)
    have o: "others_elsewhere k i0 (step_index handlers st x)"
      using Exec Some p assms(2) by (simp add: Let_def others_elsewhere_def)
    from st w f o show ?thesis by blast
  qed
qed

lemma aside_steps_index:
  "list_all (aside_index k i0) xs \<Longrightarrow> others_elsewhere k i0 st \<Longrightarrow>
     store (run_index handlers st xs) k = store st k
   \<and> others_elsewhere k i0 (run_index handlers st xs)
   \<and> (\<forall>i \<ge> i0. waiting (run_index handlers st xs) i = waiting st i)
   \<and> filter (\<lambda>r. i0 \<le> fst r) (finished (run_index handlers st xs))
       = filter (\<lambda>r. i0 \<le> fst r) (finished st)"
proof (induction xs arbitrary: st)
  case Nil
  then show ?case by (simp add: run_index_def)
next
  case (Cons x xs)
  from Cons.prems have x: "aside_index k i0 x" and xs: "list_all (aside_index k i0) xs"
    by simp_all
  note one = aside_step_index[OF x Cons.prems(2), of handlers]
  from one have q: "others_elsewhere k i0 (step_index handlers st x)" by blast
  from Cons.IH[OF xs q] one show ?case by (simp add: run_index_def)
qed
lemma run_index_append:
  "run_index handlers st (xs @ ys) = run_index handlers (run_index handlers st xs) ys"
  by (simp add: run_index_def)

lemma run_index_Cons:
  "run_index handlers st (x # xs) = run_index handlers (step_index handlers st x) xs"
  by (simp add: run_index_def)

lemma run_index_Nil: "run_index handlers st [] = st"
  by (simp add: run_index_def)

lemma call_admitted_index:
  assumes "args = Object True (Some ip) # rest" "redisClient L = Some client"
    "0 < limit_or_default (dict L)"
    "counter (store st) (window_key_index ip t) t < limit_or_default (dict L)"
  shows "step_index handlers st (Call i L name args t Healthy) =
     st\<lparr>waiting := (waiting st)(i \<mapsto> (name, args, window_key_index ip t,
                                        59))\<rparr>"
  using assms by (simp add: begin_index_def Let_def limit_reached_counter)

lemma call_rejected_index:
  assumes "args = Object True (Some ip) # rest" "redisClient L = Some client"
    "0 < limit_or_default (dict L)"
    "limit_or_default (dict L) \<le> counter (store st) (window_key_index ip t) t"
  shows "step_index handlers st (Call i L name args t Healthy) =
     st\<lparr>finished := finished st @ [(i, Inl rate_limit_exceeded, [])]\<rparr>"
  using assms by (simp add: begin_index_def Let_def limit_reached_counter throw_def)

lemma exec_index:
  assumes "waiting st i = Some (name, args, k, s)"
  shows "step_index handlers st (Exec i t Healthy) =
     \<lparr>store = redis_incr_expire (store st) k s t, waiting = (waiting st)(i := None),
      finished = finished st @ [(i, Inr (handlers name args), [args])]\<rparr>"
  using assms by (simp add: complete_index_def invoke_def Let_def)

declare step_index.simps [simp del]

lemma turns_index:
  assumes a: "args = Object True (Some ip) # more_args" and cl: "redisClient L = Some client"
    and pos: "0 < limit_or_default (dict L)"
  shows "others_elsewhere k i0 st \<Longrightarrow> \<forall>j \<ge> i0. waiting st j = None \<Longrightarrow> i0 \<le> i \<Longrightarrow>
     window_key_index ip tc = k \<Longrightarrow>
     counter (store st) k tc = c \<Longrightarrow> counter (store st) k te = c \<Longrightarrow>
     c \<le> limit_or_default (dict L) \<Longrightarrow>
     length rest = nat (limit_or_default (dict L) - c) \<Longrightarrow>
     paced 59000 te rest \<Longrightarrow>
     \<forall>u \<in> set rest. getMinutes (called_at u) = getMinutes tc \<Longrightarrow>
     asides (aside_index k i0) ((b, tc, m, te) # rest) \<Longrightarrow>
     map snd (filter (\<lambda>r. i0 \<le> fst r)
        (finished (run_index handlers st (one_at_a_time L name args i ((b, tc, m, te) # rest)))))
     = map snd (filter (\<lambda>r. i0 \<le> fst r) (finished st))
       @ replicate (nat (limit_or_default (dict L) - c)) (Inr (handlers name args), [args])
       @ [(Inl rate_limit_exceeded, [])]"
proof (induction rest arbitrary: st i c b tc m te)
  case Nil
  let ?st1 = "run_index handlers st b"
  from Nil.prems have b: "list_all (aside_index k i0) b" and m: "list_all (aside_index k i0) m"
    by simp_all
  note B = aside_steps_index[OF b Nil.prems(1), of handlers]
  from Nil.prems have "limit_or_default (dict L) \<le> c" by simp
  with Nil.prems(5) B have full: "limit_or_default (dict L) \<le> counter (store ?st1) k tc"
    using counter_cong[of "store ?st1" k "store st" tc] by simp
  let ?st2 = "?st1\<lparr>finished := finished ?st1 @ [(i, Inl rate_limit_exceeded, [])]\<rparr>"
  have s2: "step_index handlers ?st1 (Call i L name args tc Healthy) = ?st2"
    using call_rejected_index[OF a cl pos, of ?st1 tc handlers i name] full Nil.prems(4)
    by simp
  have q2: "others_elsewhere k i0 ?st2" using B by (simp add: others_elsewhere_def)
  let ?st3 = "run_index handlers ?st2 m"
  note M = aside_steps_index[OF m q2, of handlers]
  have w3: "waiting ?st3 i = None" using M B Nil.prems(2,3) by simp
  have s4: "step_index handlers ?st3 (Exec i te Healthy) = ?st3"
    using w3 by (simp add: step_index.simps)
  have run: "run_index handlers st (one_at_a_time L name args i [(b, tc, m, te)]) = ?st3"
    by (simp add: run_index_append run_index_Cons run_index_Nil s2 s4)
  have "filter (\<lambda>r. i0 \<le> fst r) (finished ?st3)
      = filter (\<lambda>r. i0 \<le> fst r) (finished st) @ [(i, Inl rate_limit_exceeded, [])]"
    using M B Nil.prems(3) by simp
  with run Nil.prems show ?case by simp
next
  case (Cons u rest)
  obtain b' tc' m' te' where u: "u = (b', tc', m', te')" by (cases u) auto
  let ?s = "59 :: int"
  let ?lim = "limit_or_default (dict L)"
  have spos: "0 < ?s" by simp
  from Cons.prems have b: "list_all (aside_index k i0) b" and m: "list_all (aside_index k i0) m"
    and rest_asides: "asides (aside_index k i0) ((b', tc', m', te') # rest)"
    by (simp_all add: u)
  from Cons.prems have lt: "c < ?lim" by simp
  let ?st1 = "run_index handlers st b"
  note B = aside_steps_index[OF b Cons.prems(1), of handlers]
  have c1: "counter (store ?st1) k tc < ?lim"
    using counter_cong[of "store ?st1" k "store st" tc] B Cons.prems(5) lt by simp
  let ?e = "(name, args, k, ?s)"
  let ?st2 = "?st1\<lparr>waiting := (waiting ?st1)(i \<mapsto> ?e)\<rparr>"
  have s2: "step_index handlers ?st1 (Call i L name args tc Healthy) = ?st2"
    using call_admitted_index[OF a cl pos, of ?st1 tc handlers i name] c1 Cons.prems(4)
    by simp
  have q2: "others_elsewhere k i0 ?st2"
    using B Cons.prems(3) by (auto simp: others_elsewhere_def)
  let ?st3 = "run_index handlers ?st2 m"
  note M = aside_steps_index[OF m q2, of handlers]
  have w3: "waiting ?st3 i = Some ?e" using M Cons.prems(3) by simp
  let ?st4 = "\<lparr>store = redis_incr_expire (store ?st3) k ?s te, waiting = (waiting ?st3)(i := None),
      finished = finished ?st3 @ [(i, Inr (handlers name args), [args])]\<rparr>"
  have s4: "step_index handlers ?st3 (Exec i te Healthy) = ?st4"
    using exec_index[OF w3, of handlers te] .
  have run: "run_index handlers st (one_at_a_time L name args i ((b, tc, m, te) # u # rest))
      = run_index handlers ?st4 (one_at_a_time L name args (Suc i) ((b', tc', m', te') # rest))"
    by (simp add: run_index_append run_index_Cons run_index_Nil s2 s4 u)
  have q4: "others_elsewhere k i0 ?st4" using M by (auto simp: others_elsewhere_def)
  have w4: "\<forall>j \<ge> i0. waiting ?st4 j = None" using M B Cons.prems(2) by auto
  have st3k: "store ?st3 k = store st k" using M B by simp
  have c3: "counter (store ?st3) k te = c"
    using counter_cong[of "store ?st3" k "store st" te] st3k Cons.prems(6) by simp
  have ent: "store ?st4 k = Some (c + 1, te + 1000 * nat ?s)"
    using entry_after_incr[OF spos, of "store ?st3" k te] c3 by simp
  from Cons.prems(9) have times: "te \<le> tc'" "tc' \<le> te'" "te' \<le> te + 1000 * nat ?s"
    and pc: "paced 59000 te' rest"
    by (simp_all add: u)
  from Cons.prems(10) have min': "getMinutes tc' = getMinutes tc"
    and mins: "\<forall>v \<in> set rest. getMinutes (called_at v) = getMinutes tc'"
    by (simp_all add: u)
  have k': "window_key_index ip tc' = k"
    using min' Cons.prems(4) key_index_eq[of ip tc' tc] by simp
  have ctc: "counter (store ?st4) k tc' = c + 1"
    using counter_of_entry[of "store ?st4" k "c + 1" "te + 1000 * nat ?s" tc'] ent times by simp
  have cte: "counter (store ?st4) k te' = c + 1"
    using counter_of_entry[of "store ?st4" k "c + 1" "te + 1000 * nat ?s" te'] ent times by simp
  have le: "c + 1 \<le> ?lim" using lt by simp
  have len: "length rest = nat (?lim - (c + 1))" using Cons.prems(8) by simp
  have i': "i0 \<le> Suc i" using Cons.prems(3) by simp
  note IH = Cons.IH[OF q4 w4 i' k' ctc cte le len pc mins rest_asides]
  have f4: "filter (\<lambda>r. i0 \<le> fst r) (finished ?st4)
      = filter (\<lambda>r. i0 \<le> fst r) (finished st) @ [(i, Inr (handlers name args), [args])]"
    using M B Cons.prems(3) by simp
  have n: "nat (?lim - c) = Suc (nat (?lim - (c + 1)))" using lt by simp
  show ?case
    unfolding run IH f4 n by simp
qed


lemma redis_get_None_later: "redis_get db k t = None \<Longrightarrow> t \<le> t' \<Longrightarrow> redis_get db k t' = None"
  by (auto simp: redis_get_def split: option.splits if_splits)

text \<open>
  C1, in the form that holds of the code. Let the limit in force be \<open>l > 0\<close> (the
  configured limit, 50 when none or 0 is configured), and let one caller make \<open>l + 1\<close>
  calls with a GnzContext to one handler within one calendar minute, over a healthy
  connection, such that
  \<^item> the store holds no live counter under the window key when the first call is made;
  \<^item> the calls are made one at a time: the \<^verbatim>\<open>MULTI\<close> of each has been executed when the
    next is made;
  \<^item> no other call builds the same window key meanwhile, and none is waiting to write it
    when the first call is made; calls that build other keys may be made and be in flight
    at any point (in \<^verbatim>\<open>index.ts\<close> the key is \<^verbatim>\<open>sourceIp:minute\<close>, so the same
    caller's calls to other handlers are excluded);
  \<^item> each \<^verbatim>\<open>MULTI\<close> is executed no later than the expiry after the one before it:
    \<^verbatim>\<open>refreshRate\<close> seconds in \<^verbatim>\<open>part_000\<close>, where the refresh rate must not be one
    that is refused (it is unset, 0, or at least 1), and 59 seconds in \<^verbatim>\<open>index.ts\<close>.

  Then the first \<open>l\<close> calls are admitted, each calling the handler once with its arguments
  and returning its result, and the last is rejected with the error
  \<^verbatim>\<open>Rate limit exceeded\<close> of code RequestTimeout, its handler not being called.
\<close>

theorem C1_limit_then_reject:
  assumes "args = Object True (Some ip) # more_args" and "redisClient L = Some client"
    and "0 < limit_or_default (dict L)"
    and "length rest = nat (limit_or_default (dict L))"
    and "\<forall>u \<in> set rest. calendar_minute (called_at u) = calendar_minute tc"
    and "tc \<le> te"
  shows "error_code rate_limit_exceeded = Some RequestTimeout
       \<and> (\<not> refreshRate_too_small (dict L)
          \<and> redis_get (store st) (window_key_part000 ip name tc) tc = None
          \<and> (\<forall>j n a k' s. waiting st j = Some (n, a, k', s) \<longrightarrow>
                j < i0 \<and> k' \<noteq> window_key_part000 ip name tc)
          \<and> paced (1000 * nat (refreshRate_or_default (dict L))) te rest
          \<and> asides (aside_part000 (window_key_part000 ip name tc) i0) ((b, tc, m, te) # rest) \<longrightarrow>
          answers i0 (run_part000 handlers st (one_at_a_time L name args i0 ((b, tc, m, te) # rest)))
            = answers i0 st
              @ replicate (nat (limit_or_default (dict L))) (Inr (handlers name args), [args])
              @ [(Inl rate_limit_exceeded, [])])
       \<and> (redis_get (store st) (window_key_index ip tc) tc = None
          \<and> (\<forall>j n a k' s. waiting st j = Some (n, a, k', s) \<longrightarrow>
                j < i0 \<and> k' \<noteq> window_key_index ip tc)
          \<and> paced 59000 te rest
          \<and> asides (aside_index (window_key_index ip tc) i0) ((b, tc, m, te) # rest) \<longrightarrow>
          answers i0 (run_index handlers st (one_at_a_time L name args i0 ((b, tc, m, te) # rest)))
            = answers i0 st
              @ replicate (nat (limit_or_default (dict L))) (Inr (handlers name args), [args])
              @ [(Inl rate_limit_exceeded, [])])"
proof (intro conjI impI)
  show "error_code rate_limit_exceeded = Some RequestTimeout"
    by (rule error_code_rate_limit)
next
  have mins: "\<forall>u \<in> set rest. getMinutes (called_at u) = getMinutes tc"
    using assms(5) same_calendar_minute by blast
  have le: "0 \<le> limit_or_default (dict L)" using assms(3) by simp
  have len: "length rest = nat (limit_or_default (dict L) - 0)" using assms(4) by simp
  {
    let ?k = "window_key_part000 ip name tc"
    assume h: "\<not> refreshRate_too_small (dict L)
          \<and> redis_get (store st) ?k tc = None
          \<and> (\<forall>j n a k' s. waiting st j = Some (n, a, k', s) \<longrightarrow> j < i0 \<and> k' \<noteq> ?k)
          \<and> paced (1000 * nat (refreshRate_or_default (dict L))) te rest
          \<and> asides (aside_part000 ?k i0) ((b, tc, m, te) # rest)"
    then have nrs: "\<not> refreshRate_too_small (dict L)"
      and g: "redis_get (store st) ?k tc = None"
      and wt: "\<forall>j n a k' s. waiting st j = Some (n, a, k', s) \<longrightarrow> j < i0 \<and> k' \<noteq> ?k"
      and pc: "paced (1000 * nat (refreshRate_or_default (dict L))) te rest"
      and as: "asides (aside_part000 ?k i0) ((b, tc, m, te) # rest)" by blast+
    have q0: "others_elsewhere ?k i0 st"
      unfolding others_elsewhere_def using wt by blast
    have w0: "\<forall>j \<ge> i0. waiting st j = None"
    proof (intro allI impI)
      fix j assume "i0 \<le> j"
      show "waiting st j = None"
      proof (cases "waiting st j")
        case (Some p)
        obtain n a k' s where "p = (n, a, k', s)" by (cases p) auto
        with Some wt have "j < i0" by blast
        with \<open>i0 \<le> j\<close> show ?thesis by simp
      qed simp
    qed
    have c1: "counter (store st) ?k tc = 0" using g by (simp add: counter_def)
    have c2: "counter (store st) ?k te = 0"
      using redis_get_None_later[OF g assms(6)] by (simp add: counter_def)
    note T = turns_part000[OF assms(1,2) nrs assms(3) q0 w0 order_refl refl c1 c2 le len pc mins as,
        of handlers]
    then show "answers i0 (run_part000 handlers st
              (one_at_a_time L name args i0 ((b, tc, m, te) # rest)))
            = answers i0 st
              @ replicate (nat (limit_or_default (dict L))) (Inr (handlers name args), [args])
              @ [(Inl rate_limit_exceeded, [])]"
      by (simp add: answers_def)
  }
  {
    let ?k = "window_key_index ip tc"
    assume h: "redis_get (store st) ?k tc = None
          \<and> (\<forall>j n a k' s. waiting st j = Some (n, a, k', s) \<longrightarrow> j < i0 \<and> k' \<noteq> ?k)
          \<and> paced 59000 te rest
          \<and> asides (aside_index ?k i0) ((b, tc, m, te) # rest)"
    then have g: "redis_get (store st) ?k tc = None"
      and wt: "\<forall>j n a k' s. waiting st j = Some (n, a, k', s) \<longrightarrow> j < i0 \<and> k' \<noteq> ?k"
      and pc: "paced 59000 te rest"
      and as: "asides (aside_index ?k i0) ((b, tc, m, te) # rest)" by blast+
    have q0: "others_elsewhere ?k i0 st"
      unfolding others_elsewhere_def using wt by blast
    have w0: "\<forall>j \<ge> i0. waiting st j = None"
    proof (intro allI impI)
      fix j assume "i0 \<le> j"
      show "waiting st j = None"
      proof (cases "waiting st j")
        case (Some p)
        obtain n a k' s where "p = (n, a, k', s)" by (cases p) auto
        with Some wt have "j < i0" by blast
        with \<open>i0 \<le> j\<close> show ?thesis by simp
      qed simp
    qed
    have c1: "counter (store st) ?k tc = 0" using g by (simp add: counter_def)
    have c2: "counter (store st) ?k te = 0"
      using redis_get_None_later[OF g assms(6)] by (simp add: counter_def)
    note T = turns_index[OF assms(1,2,3) q0 w0 order_refl refl c1 c2 le len pc mins as,
        of handlers name]
    then show "answers i0 (run_index handlers st
              (one_at_a_time L name args i0 ((b, tc, m, te) # rest)))
            = answers i0 st
              @ replicate (nat (limit_or_default (dict L))) (Inr (handlers name args), [args])
              @ [(Inl rate_limit_exceeded, [])]"
      by (simp add: answers_def)
  }
qed

theorem C1_limit_then_reject_witness:
  "0 < limit_or_default \<lparr>dbUrl = None, limit = Some 2, refreshRate = None\<rparr>
 \<and> length [([], 1000, [], 1005), ([], 2000, [], 2005) :: turn]
      = nat (limit_or_default \<lparr>dbUrl = None, limit = Some 2, refreshRate = None\<rparr>)
 \<and> calendar_minute 1000 = calendar_minute 0 \<and> calendar_minute 2000 = calendar_minute 0
 \<and> \<not> refreshRate_too_small \<lparr>dbUrl = None, limit = Some 2, refreshRate = None\<rparr>
 \<and> redis_get Map.empty (window_key_part000 ''10.0.0.1'' ''hello'' 0) 0 = None
 \<and> paced (1000 * nat (refreshRate_or_default \<lparr>dbUrl = None, limit = Some 2, refreshRate = None\<rparr>))
      5 [([], 1000, [], 1005), ([], 2000, [], 2005)]
 \<and> asides (aside_part000 (window_key_part000 ''10.0.0.1'' ''hello'' 0) 1)
      [([Call 0 \<lparr>dict = \<lparr>dbUrl = None, limit = Some 2, refreshRate = None\<rparr>,
                 redisClient = Some ''redis://localhost:6379''\<rparr>
           ''other'' [Object True (Some ''10.0.0.2'')] 0 Healthy], 0, [Exec 0 3 Healthy], 5),
       ([], 1000, [], 1005), ([], 2000, [], 2005)]
 \<and> answers 1 (run_part000 arity (idle Map.empty)
      (one_at_a_time
         \<lparr>dict = \<lparr>dbUrl = None, limit = Some 2, refreshRate = None\<rparr>,
          redisClient = Some ''redis://localhost:6379''\<rparr>
         ''hello'' [Object True (Some ''10.0.0.1'')] 1
         [([Call 0 \<lparr>dict = \<lparr>dbUrl = None, limit = Some 2, refreshRate = None\<rparr>,
                    redisClient = Some ''redis://localhost:6379''\<rparr>
              ''other'' [Object True (Some ''10.0.0.2'')] 0 Healthy], 0, [Exec 0 3 Healthy], 5),
          ([], 1000, [], 1005), ([], 2000, [], 2005)]))
    = [(Inr 1, [[Object True (Some ''10.0.0.1'')]]), (Inr 1, [[Object True (Some ''10.0.0.1'')]]),
       (Inl rate_limit_exceeded, [])]
 \<and> redis_get Map.empty (window_key_index ''10.0.0.1'' 0) 0 = None
 \<and> paced 59000 5 [([], 1000, [], 1005), ([], 2000, [], 2005)]
 \<and> asides (aside_index (window_key_index ''10.0.0.1'' 0) 1)
      [([Call 0 \<lparr>dict = \<lparr>dbUrl = None, limit = Some 2, refreshRate = None\<rparr>,
                 redisClient = Some ''redis://localhost:6379''\<rparr>
           ''other'' [Object True (Some ''10.0.0.2'')] 0 Healthy], 0, [Exec 0 3 Healthy], 5),
       ([], 1000, [], 1005), ([], 2000, [], 2005)]
 \<and> answers 1 (run_index arity (idle Map.empty)
      (one_at_a_time
         \<lparr>dict = \<lparr>dbUrl = None, limit = Some 2, refreshRate = None\<rparr>,
          redisClient = Some ''redis://localhost:6379''\<rparr>
         ''hello'' [Object True (Some ''10.0.0.1'')] 1
         [([Call 0 \<lparr>dict = \<lparr>dbUrl = None, limit = Some 2, refreshRate = None\<rparr>,
                    redisClient = Some ''redis://localhost:6379''\<rparr>
              ''other'' [Object True (Some ''10.0.0.2'')] 0 Healthy], 0, [Exec 0 3 Healthy], 5),
          ([], 1000, [], 1005), ([], 2000, [], 2005)]))
    = [(Inr 1, [[Object True (Some ''10.0.0.1'')]]), (Inr 1, [[Object True (Some ''10.0.0.1'')]]),
       (Inl rate_limit_exceeded, [])]"
proof -
  let ?d = "\<lparr>dbUrl = None, limit = Some 2, refreshRate = None\<rparr>"
  let ?L = "\<lparr>dict = ?d, redisClient = Some ''redis://localhost:6379''\<rparr>"
  let ?args = "[Object True (Some ''10.0.0.1'')]"
  let ?b = "[Call 0 ?L ''other'' [Object True (Some ''10.0.0.2'')] 0 Healthy]"
  let ?m = "[Exec 0 3 Healthy]"
  let ?rest = "[([], 1000, [], 1005), ([], 2000, [], 2005)] :: turn list"
  have l: "limit_or_default ?d = 2" by (simp add: limit_or_default_def)
  have r: "refreshRate_or_default ?d = 59" by (simp add: refreshRate_or_default_def)
  have s: "\<not> refreshRate_too_small ?d" by (simp add: refreshRate_too_small_def)
  have g: "redis_get Map.empty (window_key_part000 ''10.0.0.1'' ''hello'' 0) 0 = None"
    "redis_get Map.empty (window_key_index ''10.0.0.1'' 0) 0 = None"
    by (simp_all add: redis_get_def)
  have c: "calendar_minute 1000 = calendar_minute 0" "calendar_minute 2000 = calendar_minute 0"
    by (simp_all add: calendar_minute_def)
  have p: "paced (1000 * nat 59) 5 ?rest" "paced 59000 5 ?rest"
    by simp_all
  have a1: "asides (aside_part000 (window_key_part000 ''10.0.0.1'' ''hello'' 0) 1)
      ((?b, 0, ?m, 5) # ?rest)"
    by (simp add: window_key_part000_def)
  have a2: "asides (aside_index (window_key_index ''10.0.0.1'' 0) 1) ((?b, 0, ?m, 5) # ?rest)"
    by (simp add: window_key_index_def)
  have h2: "redisClient ?L = Some ''redis://localhost:6379''" by simp
  have h3: "0 < limit_or_default (dict ?L)" by (simp add: l)
  have h4: "length ?rest = nat (limit_or_default (dict ?L))" by (simp add: l)
  have h5: "\<forall>u \<in> set ?rest. calendar_minute (called_at u) = calendar_minute 0"
    using c by simp
  have h6: "(0 :: nat) \<le> 5" by simp
  have n: "replicate (nat (limit_or_default (dict ?L))) x = [x, x]"
    for x :: "(error + nat) \<times> arg list list"
    by (simp add: l numeral_2_eq_2)
  let ?st = "idle Map.empty :: nat flights"
  have A: "\<not> refreshRate_too_small (dict ?L)
          \<and> redis_get (store ?st) (window_key_part000 ''10.0.0.1'' ''hello'' 0) 0 = None
          \<and> (\<forall>j n a k' s. waiting ?st j = Some (n, a, k', s) \<longrightarrow>
                j < 1 \<and> k' \<noteq> window_key_part000 ''10.0.0.1'' ''hello'' 0)
          \<and> paced (1000 * nat (refreshRate_or_default (dict ?L))) 5 ?rest
          \<and> asides (aside_part000 (window_key_part000 ''10.0.0.1'' ''hello'' 0) 1)
               ((?b, 0, ?m, 5) # ?rest)"
    using s g(1) p(1) a1 by (simp add: r idle_def)
  have B: "redis_get (store ?st) (window_key_index ''10.0.0.1'' 0) 0 = None
          \<and> (\<forall>j n a k' s. waiting ?st j = Some (n, a, k', s) \<longrightarrow>
                j < 1 \<and> k' \<noteq> window_key_index ''10.0.0.1'' 0)
          \<and> paced 59000 5 ?rest
          \<and> asides (aside_index (window_key_index ''10.0.0.1'' 0) 1) ((?b, 0, ?m, 5) # ?rest)"
    using g(2) p(2) a2 by (simp add: idle_def)
  have e: "answers 1 ?st = []" by (simp add: answers_def idle_def)
  note T = C1_limit_then_reject[where args = ?args and ip = "''10.0.0.1''" and more_args = "[]"
      and L = ?L and st = ?st and name = "''hello''" and handlers = arity
      and ?i0.0 = 1 and b = ?b and m = ?m and tc = 0 and te = 5 and rest = ?rest,
      OF refl h2 h3 h4 h5 h6]
  have S1: "answers 1 (run_part000 arity (idle Map.empty)
      (one_at_a_time ?L ''hello'' ?args 1 ((?b, 0, ?m, 5) # ?rest)))
    = [(Inr 1, [?args]), (Inr 1, [?args]), (Inl rate_limit_exceeded, [])]"
    using mp[OF T[THEN conjunct2, THEN conjunct1] A] unfolding n e by (simp add: arity_def)
  have S2: "answers 1 (run_index arity (idle Map.empty)
      (one_at_a_time ?L ''hello'' ?args 1 ((?b, 0, ?m, 5) # ?rest)))
    = [(Inr 1, [?args]), (Inr 1, [?args]), (Inl rate_limit_exceeded, [])]"
    using mp[OF T[THEN conjunct2, THEN conjunct2] B] unfolding n e by (simp add: arity_def)
  show ?thesis
    using l r s g c p a1 a2 S1 S2 by simp
qed


lemmas flight_defs = run_part000_def run_index_def step_part000.simps step_index.simps
  begin_part000_def begin_index_def complete_part000_def complete_index_def
  throw_def invoke_def idle_def answers_def arity_def

text \<open>
  C1 as stated fails, in three ways, each with a limit of 1. In \<^verbatim>\<open>part_000\<close> with the
  default expiry of 59 seconds, a second call 59.5 seconds after the first, in the same
  calendar minute, finds the counter expired and is admitted. In \<^verbatim>\<open>part_000\<close>, two
  calls in flight together both read an absent counter and are both admitted. In
  \<^verbatim>\<open>index.ts\<close>, a call to the handler \<^verbatim>\<open>other\<close> uses up the allowance, and the first
  call of the same caller to the handler \<^verbatim>\<open>hello\<close> is rejected.
\<close>

theorem C1_counterexample:
  "calendar_minute 59500 = calendar_minute 0
 \<and> answers 0 (run_part000 arity (idle Map.empty)
      (one_at_a_time
         \<lparr>dict = \<lparr>dbUrl = None, limit = Some 1, refreshRate = None\<rparr>,
          redisClient = Some ''redis://localhost:6379''\<rparr>
         ''hello'' [Object True (Some ''10.0.0.1'')] 0 [([], 0, [], 0), ([], 59500, [], 59500)]))
    = [(Inr 1, [[Object True (Some ''10.0.0.1'')]]), (Inr 1, [[Object True (Some ''10.0.0.1'')]])]
 \<and> answers 0 (run_part000 arity (idle Map.empty)
      [Call 0 \<lparr>dict = \<lparr>dbUrl = None, limit = Some 1, refreshRate = None\<rparr>,
               redisClient = Some ''redis://localhost:6379''\<rparr>
         ''hello'' [Object True (Some ''10.0.0.1'')] 0 Healthy,
       Call 1 \<lparr>dict = \<lparr>dbUrl = None, limit = Some 1, refreshRate = None\<rparr>,
               redisClient = Some ''redis://localhost:6379''\<rparr>
         ''hello'' [Object True (Some ''10.0.0.1'')] 0 Healthy,
       Exec 0 0 Healthy, Exec 1 0 Healthy])
    = [(Inr 1, [[Object True (Some ''10.0.0.1'')]]), (Inr 1, [[Object True (Some ''10.0.0.1'')]])]
 \<and> finished (run_index arity (idle Map.empty)
      [Call 0 \<lparr>dict = \<lparr>dbUrl = None, limit = Some 1, refreshRate = None\<rparr>, redisClient = Some []\<rparr>
         ''other'' [Object True (Some ''10.0.0.1'')] 0 Healthy,
       Exec 0 0 Healthy,
       Call 1 \<lparr>dict = \<lparr>dbUrl = None, limit = Some 1, refreshRate = None\<rparr>, redisClient = Some []\<rparr>
         ''hello'' [Object True (Some ''10.0.0.1'')] 1000 Healthy,
       Exec 1 1000 Healthy])
    = [(0, Inr 1, [[Object True (Some ''10.0.0.1'')]]), (1, Inl rate_limit_exceeded, [])]"
  by (simp add: calendar_minute_def flight_defs Let_def window_key_part000_def window_key_index_def
      getMinutes_def limit_reached_def redis_get_def redis_incr_expire_def counter_def
      refreshRate_too_small_def refreshRate_or_default_def limit_or_default_def)


subsection \<open>Scopes\<close>

lemma redis_after_part000_other_key:
  "sourceIp args = Inr ip \<Longrightarrow> k \<noteq> window_key_part000 ip name (date w) \<Longrightarrow>
     redis_after (wrapped_part000 L name handler w args) k = redis w k"
  by (auto simp: wrapped_defs Let_def redis_incr_expire_def
      split: sum.splits bool.splits option.splits)

text \<open>
  C5, in the form that holds of the code. In \<^verbatim>\<open>part_000\<close>, two requests with the same \<^verbatim>\<open>sourceIp\<close> and different
  scopes have different window keys, at whatever instants they arrive, and serving a
  request of one scope leaves what the store holds under the key of the other scope as it
  was. In \<^verbatim>\<open>index.ts\<close> the scope is not part of the key: the wrapped function does the
  same whatever the scope, so that all handlers share one counter for a \<^verbatim>\<open>sourceIp\<close> and
  minute.
\<close>

theorem C5_scopes:
  "(n1 \<noteq> n2 \<longrightarrow>
      window_key_part000 ip n1 t1 \<noteq> window_key_part000 ip n2 t2
    \<and> (sourceIp args = Inr ip \<longrightarrow>
          redis_after (wrapped_part000 L n1 handler w args) (window_key_part000 ip n2 t2)
            = redis w (window_key_part000 ip n2 t2)))
 \<and> wrapped_index L n1 handler w args = wrapped_index L n2 handler w args"
proof (intro conjI impI)
  assume d: "n1 \<noteq> n2"
  then show k: "window_key_part000 ip n1 t1 \<noteq> window_key_part000 ip n2 t2"
    using key_part000_scope by blast
  assume s: "sourceIp args = Inr ip"
  have "window_key_part000 ip n2 t2 \<noteq> window_key_part000 ip n1 (date w)"
    using d key_part000_scope by blast
  from redis_after_part000_other_key[OF s this]
  show "redis_after (wrapped_part000 L n1 handler w args) (window_key_part000 ip n2 t2)
            = redis w (window_key_part000 ip n2 t2)" .
next
  show "wrapped_index L n1 handler w args = wrapped_index L n2 handler w args"
    by (simp add: wrapped_index_def)
qed

theorem C5_scopes_witness:
  "''hello'' \<noteq> ''other''
 \<and> window_key_part000 ''10.0.0.1'' ''hello'' 0 \<noteq> window_key_part000 ''10.0.0.1'' ''other'' 0
 \<and> sourceIp [Object True (Some ''10.0.0.1'')] = Inr ''10.0.0.1''
 \<and> redis_after (wrapped_part000
      \<lparr>dict = \<lparr>dbUrl = None, limit = None, refreshRate = None\<rparr>,
       redisClient = Some ''redis://localhost:6379''\<rparr>
      ''hello'' length \<lparr>date = 0, redis = Map.empty, failure = Healthy\<rparr>
      [Object True (Some ''10.0.0.1'')]) (window_key_part000 ''10.0.0.1'' ''other'' 0) = None"
proof -
  have a: "''hello'' \<noteq> ''other''" by simp
  have b: "sourceIp [Object True (Some ''10.0.0.1'')] = Inr ''10.0.0.1''" by simp
  note T = C5_scopes[where ?n1.0 = "''hello''" and ?n2.0 = "''other''" and ip = "''10.0.0.1''"
      and ?t1.0 = 0 and ?t2.0 = 0 and args = "[Object True (Some ''10.0.0.1'')]"
      and L = "\<lparr>dict = \<lparr>dbUrl = None, limit = None, refreshRate = None\<rparr>,
                redisClient = Some ''redis://localhost:6379''\<rparr>"
      and handler = length and w = "\<lparr>date = 0, redis = Map.empty, failure = Healthy\<rparr>"]
  show ?thesis
    using a b T by simp
qed

text \<open>
  C5 as stated fails on \<^verbatim>\<open>index.ts\<close>: with a limit of 1, a request to the handler
  \<^verbatim>\<open>hello\<close> uses up the allowance of the caller, and its request to the handler
  \<^verbatim>\<open>other\<close> one second later is rejected.
\<close>

theorem C5_counterexample:
  "result (wrapped_index
      \<lparr>dict = \<lparr>dbUrl = None, limit = Some 1, refreshRate = None\<rparr>, redisClient = Some []\<rparr>
      ''other'' length
      \<lparr>date = 1000,
       redis = redis_after (wrapped_index
         \<lparr>dict = \<lparr>dbUrl = None, limit = Some 1, refreshRate = None\<rparr>, redisClient = Some []\<rparr>
         ''hello'' length \<lparr>date = 0, redis = Map.empty, failure = Healthy\<rparr>
         [Object True (Some ''10.0.0.1'')]),
       failure = Healthy\<rparr>
      [Object True (Some ''10.0.0.1'')]) = Inl rate_limit_exceeded"
  by (simp add: wrapped_defs Let_def window_key_index_def getMinutes_def limit_reached_def
      redis_get_def redis_incr_expire_def counter_def limit_or_default_def error_code_rate_limit)

subsection \<open>Calling the handler\<close>




subsection \<open>A client that cannot be constructed\<close>

text \<open>
  C6, in the form that holds of the code. When the constructor of the client throws: in \<^verbatim>\<open>index.ts\<close> the error
  is logged, \<^verbatim>\<open>GenezioRateLimiter\<close> returns the decorator with no client, and every later
  call whose first argument can be inspected sends nothing to the store and calls the
  handler, returning its result; in \<^verbatim>\<open>part_000\<close> a message is logged and
  \<^verbatim>\<open>GenezioRateLimiter\<close> throws the error again.
\<close>

theorem C6_client_construction_fails:
  "(new_Redis (dbUrl_or d []) = Inl e \<longrightarrow>
      GenezioRateLimiter_index new_Redis d =
        (Inr \<lparr>dict = d, redisClient = None\<rparr>,
         [Log ''Error when opperating on the redis client. Remember to set the Redis dbUrl parameter in the RateLimiter decorator.'',
          LogError e])
    \<and> (lacks_marker args = Inr b \<longrightarrow>
          result (wrapped_index \<lparr>dict = d, redisClient = None\<rparr> name handler w args)
            = Inr (handler args)
        \<and> calls (wrapped_index \<lparr>dict = d, redisClient = None\<rparr> name handler w args) = [args]
        \<and> store_ops (wrapped_index \<lparr>dict = d, redisClient = None\<rparr> name handler w args) = []))
 \<and> (new_Redis (dbUrl_or d ''redis://localhost:6379'') = Inl e \<longrightarrow>
      GenezioRateLimiter_part000 new_Redis d = (Inl e, [Log operating_error_log]))"
  by (cases b) (simp_all add: GenezioRateLimiter_index_def GenezioRateLimiter_part000_def wrapped_defs)

theorem C6_client_construction_fails_witness:
  "failing_Redis (dbUrl_or \<lparr>dbUrl = None, limit = None, refreshRate = None\<rparr> []) = Inl RedisError
 \<and> fst (GenezioRateLimiter_index failing_Redis \<lparr>dbUrl = None, limit = None, refreshRate = None\<rparr>)
      = Inr \<lparr>dict = \<lparr>dbUrl = None, limit = None, refreshRate = None\<rparr>, redisClient = None\<rparr>
 \<and> lacks_marker [Object True (Some ''10.0.0.1'')] = Inr False
 \<and> result (wrapped_index
      \<lparr>dict = \<lparr>dbUrl = None, limit = None, refreshRate = None\<rparr>, redisClient = None\<rparr>
      ''hello'' length \<lparr>date = 0, redis = Map.empty, failure = Healthy\<rparr>
      [Object True (Some ''10.0.0.1'')]) = Inr 1
 \<and> failing_Redis (dbUrl_or \<lparr>dbUrl = None, limit = None, refreshRate = None\<rparr>
      ''redis://localhost:6379'') = Inl RedisError
 \<and> fst (GenezioRateLimiter_part000 failing_Redis
      \<lparr>dbUrl = None, limit = None, refreshRate = None\<rparr>) = Inl RedisError"
proof -
  let ?d = "\<lparr>dbUrl = None, limit = None, refreshRate = None\<rparr>"
  have a: "failing_Redis (dbUrl_or ?d []) = Inl RedisError"
    by (simp add: failing_Redis_def)
  have b: "failing_Redis (dbUrl_or ?d ''redis://localhost:6379'') = Inl RedisError"
    by (simp add: failing_Redis_def)
  have c: "lacks_marker [Object True (Some ''10.0.0.1'')] = Inr False" by simp
  show ?thesis
    using a b c
      C6_client_construction_fails[where new_Redis = failing_Redis and d = ?d and e = RedisError
        and args = "[Object True (Some ''10.0.0.1'')]" and b = False and name = "''hello''"
        and handler = length and w = "\<lparr>date = 0, redis = Map.empty, failure = Healthy\<rparr>"]
    by simp
qed

text \<open>
  C6 as stated fails on \<^verbatim>\<open>part_000\<close>: when the constructor of the client throws,
  \<^verbatim>\<open>GenezioRateLimiter\<close> throws as well.
\<close>

theorem C6_counterexample:
  "GenezioRateLimiter_part000 failing_Redis \<lparr>dbUrl = None, limit = None, refreshRate = None\<rparr>
     = (Inl RedisError, [Log operating_error_log])"
  by (simp add: GenezioRateLimiter_part000_def failing_Redis_def)

end
